theory Spec2Isabelle
  imports Main "HOL-Library.Multiset"
begin

section \<open>JavaScript values\<close>

text \<open>
  Everything that crosses the wire (HTTP response bodies, Socket.IO envelopes) and every
  prop of \<open>CuoralProvider\<close> is an untyped JavaScript value. Numbers are restricted to
  integers; objects are association lists read with \<open>map_of\<close>. A string is its sequence
  of UTF-16 code units, restricted to the code units below 256: a \<open>char\<close> is the code unit
  of that number.
\<close>

datatype jsval =
    JUndefined
  | JNull
  | JBool bool
  | JNum int
  | JStr string
  | JArr "jsval list"
  | JObj "(string \<times> jsval) list"

datatype exn = JsError string | TypeError

text \<open>Truthiness as used by \<open>!x\<close>, \<open>x || y\<close>, \<open>x && y\<close> and \<open>if (x)\<close>.\<close>

fun truthy :: "jsval \<Rightarrow> bool" where
  "truthy JUndefined = False"
| "truthy JNull = False"
| "truthy (JBool b) = b"
| "truthy (JNum n) = (n \<noteq> 0)"
| "truthy (JStr s) = (s \<noteq> [])"
| "truthy (JArr xs) = True"
| "truthy (JObj kvs) = True"

definition js_or :: "jsval \<Rightarrow> jsval \<Rightarrow> jsval" where
  "js_or a b = (if truthy a then a else b)"

fun nullish :: "jsval \<Rightarrow> bool" where
  "nullish JUndefined = True"
| "nullish JNull = True"
| "nullish v = False"

text \<open>
  \<open>a === b\<close>. Primitives compare by value. Arrays and objects compare by reference, and
  the operands compared in this program always come from separately parsed payloads, so
  two of them are never the same reference.
\<close>

fun strict_eq :: "jsval \<Rightarrow> jsval \<Rightarrow> bool" where
  "strict_eq (JArr xs) b = False"
| "strict_eq (JObj kvs) b = False"
| "strict_eq a b = (a = b)"

text \<open>
  \<open>v?.k\<close>: \<open>undefined\<close> on \<open>null\<close>/\<open>undefined\<close>, the stored value on an object that has the
  key, \<open>undefined\<close> otherwise (none of the keys read by this program is a built-in
  property of a string, number, boolean or array).
\<close>

fun opt_get :: "jsval \<Rightarrow> string \<Rightarrow> jsval" where
  "opt_get (JObj kvs) k = (case map_of kvs k of None \<Rightarrow> JUndefined | Some v \<Rightarrow> v)"
| "opt_get v k = JUndefined"

text \<open>\<open>v.k\<close>: as \<open>v?.k\<close>, but a TypeError on \<open>null\<close>/\<open>undefined\<close>.\<close>

definition get :: "jsval \<Rightarrow> string \<Rightarrow> exn + jsval" where
  "get v k = (if nullish v then Inl TypeError else Inr (opt_get v k))"

subsection \<open>Strings\<close>

text \<open>
  \<open>toLowerCase\<close> on one character: the letters \<open>A\<close> to \<open>Z\<close> and, above ASCII, the
  code units \<open>0xC0\<close> to \<open>0xDE\<close> but \<open>0xD7\<close>, each mapped \<open>0x20\<close> higher.
\<close>

definition lower_char :: "char \<Rightarrow> char" where
  "lower_char c =
     (case map_of
        (zip (''ABCDEFGHIJKLMNOPQRSTUVWXYZ'' @
              [CHR 0xC0, CHR 0xC1, CHR 0xC2, CHR 0xC3, CHR 0xC4, CHR 0xC5, CHR 0xC6, CHR 0xC7,
               CHR 0xC8, CHR 0xC9, CHR 0xCA, CHR 0xCB, CHR 0xCC, CHR 0xCD, CHR 0xCE, CHR 0xCF,
               CHR 0xD0, CHR 0xD1, CHR 0xD2, CHR 0xD3, CHR 0xD4, CHR 0xD5, CHR 0xD6, CHR 0xD8,
               CHR 0xD9, CHR 0xDA, CHR 0xDB, CHR 0xDC, CHR 0xDD, CHR 0xDE])
             (''abcdefghijklmnopqrstuvwxyz'' @
              [CHR 0xE0, CHR 0xE1, CHR 0xE2, CHR 0xE3, CHR 0xE4, CHR 0xE5, CHR 0xE6, CHR 0xE7,
               CHR 0xE8, CHR 0xE9, CHR 0xEA, CHR 0xEB, CHR 0xEC, CHR 0xED, CHR 0xEE, CHR 0xEF,
               CHR 0xF0, CHR 0xF1, CHR 0xF2, CHR 0xF3, CHR 0xF4, CHR 0xF5, CHR 0xF6, CHR 0xF8,
               CHR 0xF9, CHR 0xFA, CHR 0xFB, CHR 0xFC, CHR 0xFD, CHR 0xFE])) c of
        None \<Rightarrow> c
      | Some l \<Rightarrow> l)"

text \<open>
  \<open>v?.toLowerCase()\<close>: short-circuits to \<open>undefined\<close> on \<open>null\<close>/\<open>undefined\<close>; on any other
  non-string the method does not exist and the call throws.
\<close>

fun opt_toLowerCase :: "jsval \<Rightarrow> exn + jsval" where
  "opt_toLowerCase JUndefined = Inr JUndefined"
| "opt_toLowerCase JNull = Inr JUndefined"
| "opt_toLowerCase (JStr s) = Inr (JStr (map lower_char s))"
| "opt_toLowerCase v = Inl TypeError"

text \<open>\<open>s.split(' ')\<close> on a string: the pieces between single spaces, \<open>['']\<close> for \<open>''\<close>.\<close>

fun split_space :: "string \<Rightarrow> string list" where
  "split_space [] = [[]]"
| "split_space (c # cs) =
     (if c = CHR '' '' then [] # split_space cs
      else (case split_space cs of [] \<Rightarrow> [[c]] | p # ps \<Rightarrow> (c # p) # ps))"

fun js_split :: "jsval \<Rightarrow> exn + string list" where
  "js_split (JStr s) = Inr (split_space s)"
| "js_split v = Inl TypeError"

text \<open>\<open>parts.join(' ')\<close>.\<close>

fun join_space :: "string list \<Rightarrow> string" where
  "join_space [] = []"
| "join_space [p] = p"
| "join_space (p # q # ps) = p @ CHR '' '' # join_space (q # ps)"

text \<open>
  \<open>s.trim()\<close> removes white space and line terminators at both ends. Below 256 these are
  the tab, the line feed, the vertical tab, the form feed, the carriage return, the space
  and the no-break space.
\<close>

definition is_space :: "char \<Rightarrow> bool" where
  "is_space c =
     (c \<in> {CHR '' '', CHR 0x09, CHR 0x0A, CHR 0x0B, CHR 0x0C, CHR 0x0D, CHR 0xA0})"

definition js_trim :: "string \<Rightarrow> string" where
  "js_trim s = rev (dropWhile is_space (rev (dropWhile is_space s)))"

text \<open>The decimal digits of a natural number, as \<open>`${n}`\<close> prints them.\<close>

fun decimal :: "nat \<Rightarrow> string" where
  "decimal n =
     (if n < 10 then [''0123456789'' ! n]
      else decimal (n div 10) @ [''0123456789'' ! (n mod 10)])"

declare decimal.simps [simp del]

section \<open>Provider state, environment and effects\<close>

text \<open>
  One entry of the \<open>messages\<close> array. \<open>timestamp\<close> is a \<open>Date\<close>: its time value in
  milliseconds, or \<open>None\<close> for an Invalid Date (time value \<open>NaN\<close>).
\<close>

record message =
  msg_id :: jsval
  conversationId :: jsval
  msg_text :: jsval
  sender :: jsval
  timestamp :: "int option"
  fileUrl :: jsval
  fileName :: jsval

datatype session_status = StLoading | StActive | StClosed | StError

text \<open>The Socket.IO client held in \<open>socketRef\<close>, with the \<open>sId\<close> its listeners close over.\<close>

record socket =
  bound :: jsval
  connected :: bool

text \<open>Everything observable outside the provider, in the order it happens.\<close>

datatype effect =
    Fetch string jsval jsval
  | StorageGet
  | StorageSet jsval
  | StorageRemove
  | SocketOpen jsval
  | SocketClose
  | Emit string jsval
  | PlaySound
  | Notify string jsval
  | RegisterPush

text \<open>
  The \<open>useState\<close> cells and the \<open>socketRef\<close> of \<open>CuoralProvider\<close>, the value stored under
  \<open>SESSION_STORAGE_KEY\<close> in AsyncStorage, and the trace of effects so far. A state setter
  takes effect where it is called, and a read or write of AsyncStorage succeeds.
\<close>

record world =
  email :: jsval
  firstName :: jsval
  lastName :: jsval
  messages :: "message list"
  sessionId :: jsval
  chatThemeColor :: jsval
  isLoadingSession :: bool
  sessionError :: "string option"
  sessionProfileExists :: bool
  sessionStatus :: session_status
  tempUserEmail :: jsval
  tempUserName :: jsval
  socketRef :: "socket option"
  storage :: "jsval option"
  trace :: "effect list"

text \<open>What \<open>await fetch(...)\<close> gives: a rejection, or a response whose \<open>json()\<close> may reject.\<close>

record response =
  ok :: bool
  status :: nat
  statusText :: string
  json :: "string + jsval"

datatype fetch_result = Rejected string | Resolved response

text \<open>
  The props of the provider and the parts of the platform the code calls into.
  \<open>net n url body\<close> answers the request for \<open>url\<close> with \<open>body\<close> when \<open>n\<close> requests have been
  made before it; \<open>date_parse\<close> is the string parser of \<open>Date\<close>; \<open>clock k\<close> and \<open>random k\<close>
  are what \<open>Date.now()\<close> and \<open>Math.random().toString(36).substring(2, 9)\<close> give where they
  are read (for entry \<open>k\<close> of a history in \<open>getSession\<close>; in a listener, \<open>0\<close> for the id and
  \<open>1\<close> for the timestamp); \<open>type_error_message\<close> is the engine's text for a TypeError;
  \<open>number_text n\<close> is what the engine prints for a number \<open>n\<close> outside the safe integers,
  where it rounds the digits and, from \<open>1e21\<close> upward, uses the exponent notation.
\<close>

record env =
  publicKey :: jsval
  initialEmail :: jsval
  initialFirstName :: jsval
  initialLastName :: jsval
  net :: "nat \<Rightarrow> string \<Rightarrow> jsval \<Rightarrow> fetch_result"
  date_parse :: "string \<Rightarrow> int option"
  clock :: "nat \<Rightarrow> nat"
  random :: "nat \<Rightarrow> string"
  type_error_message :: string
  number_text :: "int \<Rightarrow> string"

definition initiateSessionUrl :: string where
  "initiateSessionUrl = ''https://api.cuoral.com/conversation/initiate-session''"

definition getSessionUrl :: string where
  "getSessionUrl = ''https://api.cuoral.com/conversation/get-single-session''"

definition setProfileUrl :: string where
  "setProfileUrl = ''https://api.cuoral.com/conversation/set-profile''"

definition fileUploadUrl :: string where
  "fileUploadUrl = ''https://api.cuoral.com/file-upload''"

subsection \<open>Sequencing with exceptions\<close>

text \<open>
  An action runs on a world and either returns a value or throws; the world it leaves
  behind holds every update made before the throw.
\<close>

type_synonym 'a act = "world \<Rightarrow> (exn + 'a) \<times> world"

definition ret :: "'a \<Rightarrow> 'a act" where
  "ret x = (\<lambda>w. (Inr x, w))"

definition throw :: "exn \<Rightarrow> 'a act" where
  "throw e = (\<lambda>w. (Inl e, w))"

definition lift :: "exn + 'a \<Rightarrow> 'a act" where
  "lift r = (\<lambda>w. (r, w))"

definition andThen :: "'a act \<Rightarrow> ('a \<Rightarrow> 'b act) \<Rightarrow> 'b act" where
  "andThen m f = (\<lambda>w. case m w of (Inl e, w') \<Rightarrow> (Inl e, w') | (Inr x, w') \<Rightarrow> f x w')"

definition modify :: "(world \<Rightarrow> world) \<Rightarrow> unit act" where
  "modify f = (\<lambda>w. (Inr (), f w))"

definition effect :: "effect \<Rightarrow> unit act" where
  "effect e = modify (\<lambda>w. w\<lparr>trace := trace w @ [e]\<rparr>)"

text \<open>\<open>try { m } catch (error) { h error }\<close>.\<close>

definition try_catch :: "'a act \<Rightarrow> (exn \<Rightarrow> 'a act) \<Rightarrow> 'a act" where
  "try_catch m h = (\<lambda>w. case m w of (Inl e, w') \<Rightarrow> h e w' | (Inr x, w') \<Rightarrow> (Inr x, w'))"

text \<open>\<open>try { m } finally { fin }\<close>: \<open>fin\<close> runs either way and the outcome of \<open>m\<close> stands.\<close>

definition ensure :: "'a act \<Rightarrow> (world \<Rightarrow> world) \<Rightarrow> 'a act" where
  "ensure m fin = (\<lambda>w. case m w of (r, w') \<Rightarrow> (r, fin w'))"

text \<open>\<open>error.message || fallback\<close>.\<close>

definition message_or :: "env \<Rightarrow> exn \<Rightarrow> string \<Rightarrow> string" where
  "message_or e error fallback =
     (let m = (case error of JsError s \<Rightarrow> s | TypeError \<Rightarrow> type_error_message e)
      in if m \<noteq> [] then m else fallback)"

subsection \<open>Network and dates\<close>

fun is_fetch :: "effect \<Rightarrow> bool" where
  "is_fetch (Fetch url hdrs body) = True"
| "is_fetch ev = False"

text \<open>
  \<open>await fetch(url, {method: 'POST', headers, body: JSON.stringify(body)})\<close>; \<open>body\<close> is
  the object before it is serialised.
\<close>

definition fetch :: "env \<Rightarrow> string \<Rightarrow> jsval \<Rightarrow> jsval \<Rightarrow> response act" where
  "fetch e url hdrs body = (\<lambda>w.
     let w' = w\<lparr>trace := trace w @ [Fetch url hdrs body]\<rparr>
     in case net e (length (filter is_fetch (trace w))) url body of
          Rejected m \<Rightarrow> (Inl (JsError m), w')
        | Resolved r \<Rightarrow> (Inr r, w'))"

definition response_json :: "response \<Rightarrow> jsval act" where
  "response_json r = (case json r of Inl m \<Rightarrow> throw (JsError m) | Inr v \<Rightarrow> ret v)"

text \<open>
  The string conversion of a template literal \<open>`${v}`\<close>. A safe integer (of magnitude
  at most \<open>2^53 - 1\<close>) prints all its digits. An array prints its elements separated
  by commas, with \<open>null\<close> and \<open>undefined\<close> elements printed empty.
\<close>

fun join_comma :: "string list \<Rightarrow> string" where
  "join_comma [] = []"
| "join_comma [p] = p"
| "join_comma (p # q # ps) = p @ CHR '','' # join_comma (q # ps)"

fun to_string :: "env \<Rightarrow> jsval \<Rightarrow> string" where
  "to_string e JUndefined = ''undefined''"
| "to_string e JNull = ''null''"
| "to_string e (JBool b) = (if b then ''true'' else ''false'')"
| "to_string e (JNum n) =
     (if 9007199254740991 < \<bar>n\<bar> then number_text e n
      else if n < 0 then CHR ''-'' # decimal (nat (- n)) else decimal (nat n))"
| "to_string e (JStr s) = s"
| "to_string e (JArr xs) = join_comma (map (\<lambda>x. if nullish x then [] else to_string e x) xs)"
| "to_string e (JObj kvs) = ''[object Object]''"

text \<open>
  \<open>new Date(v)\<close>: the time value, \<open>None\<close> when it is \<open>NaN\<close>. A number is taken as
  milliseconds (valid up to 8.64e15 either side of the epoch), a string is parsed, an array
  or object is converted to a string first.
\<close>

fun new_Date :: "env \<Rightarrow> jsval \<Rightarrow> int option" where
  "new_Date e JUndefined = None"
| "new_Date e JNull = Some 0"
| "new_Date e (JBool b) = Some (if b then 1 else 0)"
| "new_Date e (JNum n) = (if \<bar>n\<bar> \<le> 8640000000000000 then Some n else None)"
| "new_Date e (JStr s) = date_parse e s"
| "new_Date e v = date_parse e (to_string e v)"

section \<open>The message log\<close>

text \<open>
  The comparator \<open>(a, b) => new Date(a.timestamp).getTime() - new Date(b.timestamp).getTime()\<close>:
  \<open>None\<close> is \<open>NaN\<close>, which \<open>Array.prototype.sort\<close> treats as \<open>+0\<close>.
\<close>

definition compare_time :: "message \<Rightarrow> message \<Rightarrow> int option" where
  "compare_time a b =
     (case (timestamp a, timestamp b) of (Some x, Some y) \<Rightarrow> Some (x - y) | _ \<Rightarrow> None)"

definition sorts_after :: "message \<Rightarrow> message \<Rightarrow> bool" where
  "sorts_after a b = (case compare_time a b of Some d \<Rightarrow> 0 < d | None \<Rightarrow> False)"

text \<open>
  \<open>Array.prototype.sort\<close> with that comparator, as a stable insertion sort. The language
  fixes the result whenever the comparator is consistent, which it is when every timestamp
  is valid; with an Invalid Date among several valid ones the order is left to the engine,
  and this is one such order.
\<close>

fun js_insert :: "message \<Rightarrow> message list \<Rightarrow> message list" where
  "js_insert x [] = [x]"
| "js_insert x (y # ys) = (if sorts_after x y then y # js_insert x ys else x # y # ys)"

definition js_sort :: "message list \<Rightarrow> message list" where
  "js_sort xs = foldr js_insert xs []"

text \<open>\<open>prevMessages[prevMessages.length - 1]\<close>, \<open>undefined\<close> on an empty array.\<close>

definition last_message :: "message list \<Rightarrow> message option" where
  "last_message xs = (case rev xs of [] \<Rightarrow> None | m # ms \<Rightarrow> Some m)"

text \<open>The duplicate test both socket listeners apply against the last entry of the log.\<close>

definition is_duplicate :: "message list \<Rightarrow> message \<Rightarrow> bool" where
  "is_duplicate prevMessages new =
     (case last_message prevMessages of
        None \<Rightarrow> False
      | Some lastMessage \<Rightarrow>
          strict_eq (msg_id lastMessage) (msg_id new)
          \<or> (strict_eq (msg_text lastMessage) (msg_text new)
             \<and> strict_eq (sender lastMessage) (sender new)
             \<and> strict_eq (fileUrl lastMessage) (fileUrl new)))"

text \<open>
  The updater passed to \<open>setMessages\<close> by the two listeners; they differ in the title and
  body of the notification only.
\<close>

definition merge_incoming :: "message \<Rightarrow> string \<Rightarrow> jsval \<Rightarrow> world \<Rightarrow> world" where
  "merge_incoming new title body w =
     (if is_duplicate (messages w) new then w
      else
        (let w1 = (if strict_eq (sender new) (JStr ''bot'') \<or> strict_eq (sender new) (JStr ''admin'')
                   then w\<lparr>trace := trace w @ [PlaySound, Notify title body]\<rparr> else w)
         in w1\<lparr>messages := js_sort (messages w @ [new])\<rparr>))"

definition addMessageToState :: "message \<Rightarrow> unit act" where
  "addMessageToState m = modify (\<lambda>w. w\<lparr>messages := messages w @ [m]\<rparr>)"

section \<open>The socket\<close>

definition connectSocket :: "jsval \<Rightarrow> unit act" where
  "connectSocket sId =
     (if \<not> truthy sId then ret ()
      else
        andThen (modify (\<lambda>w. case socketRef w of
                                None \<Rightarrow> w
                              | Some old \<Rightarrow> w\<lparr>socketRef := None, trace := trace w @ [SocketClose]\<rparr>)) (\<lambda>_.
        modify (\<lambda>w. w\<lparr>socketRef := Some \<lparr>bound = sId, connected = False\<rparr>,
                       trace := trace w @ [SocketOpen sId]\<rparr>)))"

text \<open>
  The object \<open>newMessageFromSocket\<close> the \<open>send_message\<close> listener builds from the room and
  the \<open>messageData\<close> of an envelope. \<open>clock e 0\<close> is the \<open>Date.now()\<close> of the id, \<open>clock e 1\<close>
  that of the timestamp.
\<close>

definition newMessageFromSocket :: "env \<Rightarrow> jsval \<Rightarrow> jsval \<Rightarrow> message" where
  "newMessageFromSocket e incomingConversationId messageData =
     \<lparr>msg_id = js_or (opt_get messageData ''time_created'')
                 (JStr (''socket_msg_'' @ decimal (clock e 0) @ ''_'' @ random e 0)),
      conversationId = incomingConversationId,
      msg_text = opt_get messageData ''message'',
      sender = (if strict_eq (opt_get messageData ''author_type'') (JStr ''HUMAN'')
                then JStr ''admin'' else JStr ''bot''),
      timestamp = new_Date e (js_or (opt_get messageData ''time_created'') (JNum (int (clock e 1)))),
      fileUrl = js_or (opt_get messageData ''file_url'') JNull,
      fileName = js_or (opt_get messageData ''filename'') JNull\<rparr>"

text \<open>The object \<open>newFileMessageFromSocket\<close> of the \<open>send_file\<close> listener.\<close>

definition newFileMessageFromSocket :: "env \<Rightarrow> jsval \<Rightarrow> jsval \<Rightarrow> message" where
  "newFileMessageFromSocket e incomingConversationId messageData =
     \<lparr>msg_id = js_or (opt_get messageData ''time_created'')
                 (JStr (''socket_file_msg_'' @ decimal (clock e 0) @ ''_'' @ random e 0)),
      conversationId = incomingConversationId,
      msg_text = js_or (opt_get messageData ''message'') (JStr []),
      sender = (if strict_eq (opt_get messageData ''author_type'') (JStr ''HUMAN'')
                then JStr ''admin'' else JStr ''bot''),
      timestamp = new_Date e (js_or (opt_get messageData ''time_created'') (JNum (int (clock e 1)))),
      fileUrl = js_or (opt_get messageData ''file'') (js_or (opt_get messageData ''file_url'') JNull),
      fileName = js_or (opt_get messageData ''filename'') JNull\<rparr>"

text \<open>
  The \<open>send_message\<close> listener registered by \<open>connectSocket(sId)\<close>. Past the guard both
  \<open>message\<close> and \<open>message.messageData\<close> are truthy, so their properties are read with
  \<open>opt_get\<close>: no read can throw there.
\<close>

definition on_send_message :: "env \<Rightarrow> jsval \<Rightarrow> jsval \<Rightarrow> unit act" where
  "on_send_message e sId message =
     (if \<not> truthy message \<or> \<not> truthy (opt_get message ''messageData'') then ret ()
      else
        (let messageData = opt_get message ''messageData'' in
         andThen (lift (opt_toLowerCase (opt_get messageData ''message_type''))) (\<lambda>lowered.
         let isReply = strict_eq lowered (JStr ''reply'');
             isExternalChannel = strict_eq (opt_get messageData ''channel'') (JStr ''external'');
             incomingConversationId = opt_get message ''room''
         in if isReply \<and> isExternalChannel \<and> strict_eq incomingConversationId sId then
              (let new = newMessageFromSocket e incomingConversationId messageData
               in modify (merge_incoming new ''New Message from Cuoral'' (msg_text new)))
            else ret ())))"

text \<open>
  The \<open>send_file\<close> listener. Its condition reads the channel and the room first, and
  \<open>message_type?.toLowerCase()\<close> only when both match.
\<close>

definition on_send_file :: "env \<Rightarrow> jsval \<Rightarrow> jsval \<Rightarrow> unit act" where
  "on_send_file e sId message =
     (if \<not> truthy message \<or> \<not> truthy (opt_get message ''messageData'') then ret ()
      else
        (let messageData = opt_get message ''messageData'';
             isExternalChannel = strict_eq (opt_get messageData ''channel'') (JStr ''external'');
             incomingConversationId = opt_get message ''room''
         in if isExternalChannel \<and> strict_eq incomingConversationId sId then
              andThen (lift (opt_toLowerCase (opt_get messageData ''message_type''))) (\<lambda>lowered.
              if strict_eq lowered (JStr ''reply'') then
                (let new = newFileMessageFromSocket e incomingConversationId messageData
                 in modify (merge_incoming new ''New File from Cuoral''
                              (js_or (msg_text new) (JStr ''Image received.''))))
              else ret ())
            else ret ()))"

text \<open>
  The events the transport raises on the socket, and the listeners \<open>connectSocket\<close>
  registers for them. Without a socket there is no listener.
\<close>

datatype socket_event =
    EvConnect
  | EvSendMessage jsval
  | EvSendFile jsval
  | EvDisconnect
  | EvError
  | EvConnectError
  | EvPong

definition deliver :: "env \<Rightarrow> socket_event \<Rightarrow> unit act" where
  "deliver e ev = (\<lambda>w.
     case socketRef w of
       None \<Rightarrow> (Inr (), w)
     | Some s \<Rightarrow>
         (case ev of
            EvConnect \<Rightarrow>
              (Inr (), w\<lparr>socketRef := Some (s\<lparr>connected := True\<rparr>),
                         trace := trace w @ [Emit ''join'' (bound s)]\<rparr>)
          | EvSendMessage message \<Rightarrow> on_send_message e (bound s) message w
          | EvSendFile message \<Rightarrow> on_send_file e (bound s) message w
          | EvDisconnect \<Rightarrow> (Inr (), w\<lparr>socketRef := Some (s\<lparr>connected := False\<rparr>)\<rparr>)
          | EvError \<Rightarrow> (Inr (), w)
          | EvConnectError \<Rightarrow> (Inr (), w)
          | EvPong \<Rightarrow> (Inr (), w\<lparr>trace := trace w @ [Emit ''ping'' JUndefined]\<rparr>)))"

section \<open>Session operations\<close>

text \<open>
  The \<open>if (!response.ok)\<close> block of every request: it reads the error body and throws
  \<open>new Error(`<prefix>${response.status}<sep>${errorData.message || response.statusText}`)\<close>.
\<close>

definition check_ok :: "env \<Rightarrow> string \<Rightarrow> string \<Rightarrow> response \<Rightarrow> unit act" where
  "check_ok e prefix sep r =
     (if ok r then ret ()
      else
        andThen (response_json r) (\<lambda>errorData.
        andThen (lift (get errorData ''message'')) (\<lambda>m.
        throw (JsError (prefix @ decimal (status r) @ sep
                         @ to_string e (js_or m (JStr (statusText r))))))))"

definition json_headers :: "env \<Rightarrow> jsval" where
  "json_headers e =
     JObj [(''Content-Type'', JStr ''application/json''),
           (''x-org-id'', js_or (publicKey e) (JStr ''undefined''))]"

text \<open>\<open>if (data.configuration && data.configuration.color) setChatThemeColor(...)\<close>.\<close>

definition set_theme :: "jsval \<Rightarrow> unit act" where
  "set_theme data =
     andThen (lift (get data ''configuration'')) (\<lambda>configuration.
     if truthy configuration \<and> truthy (opt_get configuration ''color'')
     then modify (\<lambda>w. w\<lparr>chatThemeColor := opt_get configuration ''color''\<rparr>)
     else ret ())"

text \<open>\<open>nameParts[0] || ''\<close> and \<open>nameParts.slice(1).join(' ') || ''\<close>.\<close>

definition first_part :: "string list \<Rightarrow> jsval" where
  "first_part nameParts =
     js_or (case nameParts of [] \<Rightarrow> JUndefined | p # ps \<Rightarrow> JStr p) (JStr [])"

definition rest_parts :: "string list \<Rightarrow> jsval" where
  "rest_parts nameParts = js_or (JStr (join_space (drop 1 nameParts))) (JStr [])"

text \<open>
  The callback of \<open>data.messages.map\<close> in \<open>getSession\<close>, on entry \<open>i\<close> of the history; its
  first property read throws on a \<open>null\<close> entry.
\<close>

definition load_message :: "env \<Rightarrow> nat \<Rightarrow> jsval \<Rightarrow> exn + message" where
  "load_message e i msg =
     (if nullish msg then Inl TypeError
      else Inr
        \<lparr>msg_id = js_or (opt_get msg ''time_created'')
                    (JStr (''msg_'' @ decimal (clock e i) @ ''_'' @ random e i)),
         conversationId = JUndefined,
         msg_text = opt_get msg ''message'',
         sender = (if strict_eq (opt_get msg ''message_type'') (JStr ''REPLY'')
                   then (if strict_eq (opt_get msg ''author_type'') (JStr ''HUMAN'')
                         then JStr ''admin'' else JStr ''bot'')
                   else JStr ''user''),
         timestamp = new_Date e (opt_get msg ''time_created''),
         fileUrl = js_or (opt_get msg ''file_url'') JNull,
         fileName = js_or (opt_get msg ''filename'') JNull\<rparr>)"

fun load_messages :: "env \<Rightarrow> nat \<Rightarrow> jsval list \<Rightarrow> exn + message list" where
  "load_messages e i [] = Inr []"
| "load_messages e i (msg # rest) =
     (case load_message e i msg of
        Inl x \<Rightarrow> Inl x
      | Inr m \<Rightarrow> (case load_messages e (Suc i) rest of Inl x \<Rightarrow> Inl x | Inr ms \<Rightarrow> Inr (m # ms)))"

text \<open>\<open>data.messages.map(...)\<close>: only an array has the method.\<close>

fun map_history :: "env \<Rightarrow> jsval \<Rightarrow> exn + message list" where
  "map_history e (JArr xs) = load_messages e 0 xs"
| "map_history e v = Inl TypeError"

text \<open>The \<open>try\<close> block of \<open>getSession\<close>.\<close>

definition getSession_try :: "env \<Rightarrow> jsval \<Rightarrow> bool act" where
  "getSession_try e sId =
     andThen (fetch e getSessionUrl (json_headers e) (JObj [(''session_id'', sId)])) (\<lambda>response.
     andThen (check_ok e ''HTTP error! status: '' '', message: '' response) (\<lambda>_.
     andThen (response_json response) (\<lambda>data.
     andThen (lift (get data ''session_id'')) (\<lambda>session_id.
     if truthy session_id then
       andThen (modify (\<lambda>w. w\<lparr>sessionId := session_id\<rparr>)) (\<lambda>_.
       andThen (set_theme data) (\<lambda>_.
       let sessionEmail = js_or (opt_get data ''email'') (JStr []);
           sessionName = js_or (opt_get data ''name'') (JStr [])
       in
       andThen (modify (\<lambda>w. w\<lparr>email := sessionEmail\<rparr>)) (\<lambda>_.
       andThen (lift (js_split sessionName)) (\<lambda>nameParts.
       andThen (modify (\<lambda>w. w\<lparr>firstName := first_part nameParts,
                                 lastName := rest_parts nameParts,
                                 sessionProfileExists := (truthy sessionEmail \<and> truthy sessionName)\<rparr>)) (\<lambda>_.
       andThen (lift (map_history e (opt_get data ''messages''))) (\<lambda>loadedMessages.
       andThen (modify (\<lambda>w. w\<lparr>messages := js_sort loadedMessages\<rparr>)) (\<lambda>_.
       andThen (if strict_eq (opt_get data ''status'') (JStr ''closed'')
                then modify (\<lambda>w. w\<lparr>sessionStatus := StClosed\<rparr>)
                else andThen (modify (\<lambda>w. w\<lparr>sessionStatus := StActive\<rparr>)) (\<lambda>_.
                     connectSocket session_id)) (\<lambda>_.
       ret True))))))))
     else throw (JsError
       ''Failed to retrieve session: Invalid session data or missing session ID.'')))))"

definition getSession :: "env \<Rightarrow> jsval \<Rightarrow> bool act" where
  "getSession e sId =
     (if \<not> truthy sId then
        andThen (modify (\<lambda>w. w\<lparr>sessionError := Some ''Session ID is missing for getSession.'',
                                  isLoadingSession := False,
                                  sessionStatus := StError\<rparr>)) (\<lambda>_.
        ret False)
      else
        andThen (modify (\<lambda>w. w\<lparr>isLoadingSession := True, sessionError := None,
                                  sessionStatus := StLoading\<rparr>)) (\<lambda>_.
        ensure
          (try_catch (getSession_try e sId) (\<lambda>error.
             andThen (modify (\<lambda>w. w\<lparr>sessionError :=
                                         Some (message_or e error ''Failed to load chat session.''),
                                       sessionStatus := StError\<rparr>)) (\<lambda>_.
             ret False)))
          (\<lambda>w. w\<lparr>isLoadingSession := False\<rparr>)))"

text \<open>The \<open>try\<close> block of \<open>initiateSession\<close>.\<close>

definition initiateSession_try :: "env \<Rightarrow> jsval \<Rightarrow> jsval \<Rightarrow> jsval \<Rightarrow> bool act" where
  "initiateSession_try e userEmail userFirstName userLastName =
     andThen (fetch e initiateSessionUrl (json_headers e)
                (JObj [(''public_key'', publicKey e), (''email'', userEmail),
                       (''first_name'', userFirstName), (''last_name'', userLastName)])) (\<lambda>response.
     andThen (check_ok e ''HTTP error! status: '' '', message: '' response) (\<lambda>_.
     andThen (response_json response) (\<lambda>data.
     andThen (lift (get data ''status'')) (\<lambda>data_status.
     if truthy data_status \<and> truthy (opt_get data ''session_id'') then
       andThen (modify (\<lambda>w. w\<lparr>sessionId := opt_get data ''session_id''\<rparr>)) (\<lambda>_.
       andThen (effect (StorageSet (opt_get data ''session_id''))) (\<lambda>_.
       andThen (modify (\<lambda>w. w\<lparr>storage := Some (opt_get data ''session_id'')\<rparr>)) (\<lambda>_.
       andThen (set_theme data) (\<lambda>_.
       andThen (getSession e (opt_get data ''session_id'')) (\<lambda>success.
       andThen (modify (\<lambda>w. w\<lparr>sessionStatus := (if success then StActive else StError)\<rparr>)) (\<lambda>_.
       ret success))))))
     else throw (JsError ''Failed to initiate session: No session_id returned.'')))))"

definition initiateSession :: "env \<Rightarrow> jsval \<Rightarrow> jsval \<Rightarrow> jsval \<Rightarrow> bool act" where
  "initiateSession e userEmail userFirstName userLastName =
     andThen (modify (\<lambda>w. w\<lparr>isLoadingSession := True, sessionError := None,
                               sessionStatus := StLoading, messages := [],
                               sessionProfileExists := False\<rparr>)) (\<lambda>_.
     ensure
       (try_catch (initiateSession_try e userEmail userFirstName userLastName) (\<lambda>error.
          andThen (modify (\<lambda>w. w\<lparr>sessionError :=
                                      Some (message_or e error ''Failed to initiate chat session.''),
                                    sessionStatus := StError\<rparr>)) (\<lambda>_.
          ret False)))
       (\<lambda>w. w\<lparr>isLoadingSession := False\<rparr>))"

text \<open>The \<open>try\<close> block of \<open>setProfile\<close>; its request carries no \<open>x-org-id\<close> header.\<close>

definition setProfile_try :: "env \<Rightarrow> jsval \<Rightarrow> jsval \<Rightarrow> jsval \<Rightarrow> bool act" where
  "setProfile_try e sId userEmail userName =
     andThen (fetch e setProfileUrl (JObj [(''Content-Type'', JStr ''application/json'')])
                (JObj [(''session_id'', sId), (''email'', userEmail), (''name'', userName)])) (\<lambda>response.
     andThen (check_ok e ''HTTP error! status: '' '', message: '' response) (\<lambda>_.
     andThen (response_json response) (\<lambda>data.
     andThen (lift (get data ''status'')) (\<lambda>data_status.
     if truthy data_status then
       andThen (modify (\<lambda>w. w\<lparr>email := userEmail\<rparr>)) (\<lambda>_.
       andThen (lift (js_split userName)) (\<lambda>nameParts.
       andThen (modify (\<lambda>w. w\<lparr>firstName := first_part nameParts,
                                 lastName := rest_parts nameParts,
                                 sessionProfileExists := True,
                                 sessionStatus := StActive\<rparr>)) (\<lambda>_.
       ret True)))
     else throw (JsError ''Failed to set profile: API returned false status.'')))))"

definition setProfile :: "env \<Rightarrow> jsval \<Rightarrow> jsval \<Rightarrow> jsval \<Rightarrow> bool act" where
  "setProfile e sId userEmail userName =
     andThen (modify (\<lambda>w. w\<lparr>isLoadingSession := True, sessionError := None,
                               sessionStatus := StLoading\<rparr>)) (\<lambda>_.
     ensure
       (try_catch (setProfile_try e sId userEmail userName) (\<lambda>error.
          andThen (modify (\<lambda>w. w\<lparr>sessionError :=
                                      Some (message_or e error ''Failed to set profile information.''),
                                    sessionStatus := StError\<rparr>)) (\<lambda>_.
          ret False)))
       (\<lambda>w. w\<lparr>isLoadingSession := False\<rparr>))"

section \<open>Startup, reset and sending\<close>

text \<open>\<open>await AsyncStorage.getItem(SESSION_STORAGE_KEY)\<close>: the stored string, or \<open>null\<close>.\<close>

definition storage_get :: "jsval act" where
  "storage_get =
     andThen (effect StorageGet) (\<lambda>_ w. (Inr (case storage w of None \<Rightarrow> JNull | Some v \<Rightarrow> v), w))"

text \<open>\<open>`${initialFirstName || ''} ${initialLastName || ''}`.trim()\<close>.\<close>

definition combinedName :: "env \<Rightarrow> string" where
  "combinedName e =
     js_trim (to_string e (js_or (initialFirstName e) (JStr [])) @ '' ''
              @ to_string e (js_or (initialLastName e) (JStr [])))"

text \<open>
  One run of the effect \<open>setupCuoral\<close>. The \<open>sessionId\<close> and \<open>sessionProfileExists\<close> tested
  after the session is loaded are the variables of the render that created the effect: the
  values in the world the run starts from, \<open>w0\<close>, not those the calls above have set since.
\<close>

definition setupCuoral :: "env \<Rightarrow> unit act" where
  "setupCuoral e = (\<lambda>w0.
     (andThen (modify (\<lambda>w. w\<lparr>isLoadingSession := True, sessionStatus := StLoading\<rparr>)) (\<lambda>_.
      ensure
        (try_catch
           (andThen (effect RegisterPush) (\<lambda>_.
            andThen storage_get (\<lambda>storedSessionId.
            andThen (if truthy storedSessionId then getSession e storedSessionId else ret False)
              (\<lambda>sessionSuccessfullyLoaded.
            andThen (if \<not> sessionSuccessfullyLoaded
                     then andThen (initiateSession e (initialEmail e) (initialFirstName e)
                                     (initialLastName e)) (\<lambda>_. ret ())
                     else ret ()) (\<lambda>_.
            if truthy (sessionId w0) \<and> \<not> sessionProfileExists w0
               \<and> (truthy (initialEmail e) \<or> truthy (initialFirstName e) \<or> truthy (initialLastName e))
            then
              (if truthy (initialEmail e) \<and> combinedName e \<noteq> []
               then andThen (setProfile e (sessionId w0) (initialEmail e) (JStr (combinedName e)))
                      (\<lambda>_. ret ())
               else ret ())
            else ret ())))))
           (\<lambda>error. modify (\<lambda>w. w\<lparr>sessionError := Some ''Failed to load or initiate session.'',
                                     sessionStatus := StError\<rparr>)))
        (\<lambda>w. w\<lparr>isLoadingSession := False\<rparr>))) w0)"

definition clearSessionAndInitiateNew :: "env \<Rightarrow> unit act" where
  "clearSessionAndInitiateNew e = (\<lambda>w0.
     (andThen (modify (\<lambda>w. case socketRef w of
                              None \<Rightarrow> w
                            | Some s \<Rightarrow> if connected s
                                        then w\<lparr>socketRef := None, trace := trace w @ [SocketClose]\<rparr>
                                        else w)) (\<lambda>_.
      andThen (effect StorageRemove) (\<lambda>_.
      andThen (modify (\<lambda>w. w\<lparr>storage := None, sessionId := JNull, messages := [],
                                sessionProfileExists := False, sessionStatus := StLoading,
                                sessionError := None, isLoadingSession := True\<rparr>)) (\<lambda>_.
      andThen (initiateSession e (tempUserEmail w0) (firstName w0) (lastName w0)) (\<lambda>_.
      ret ()))))) w0)"

text \<open>\<open>socketRef.current.emit(name, payload)\<close>.\<close>

definition emit :: "string \<Rightarrow> jsval \<Rightarrow> unit act" where
  "emit name payload = (\<lambda>w.
     case socketRef w of
       None \<Rightarrow> (Inl TypeError, w)
     | Some s \<Rightarrow> (Inr (), w\<lparr>trace := trace w @ [Emit name payload]\<rparr>))"

definition basePayload :: "env \<Rightarrow> world \<Rightarrow> jsval \<Rightarrow> (string \<times> jsval) list" where
  "basePayload e w text =
     (let authorName =
        js_or (email w)
          (js_or (JStr (js_trim (to_string e (js_or (firstName w) (JStr [])) @ '' ''
                                 @ to_string e (js_or (lastName w) (JStr [])))))
                 (JStr ''anonymous''))
      in [(''origin'', JStr ''frontend''), (''message'', text), (''message_type'', JStr ''QUERY''),
          (''channel'', JStr ''external''), (''author'', authorName),
          (''author_type'', JStr ''HUMAN''), (''conversation_id'', sessionId w),
          (''organisation_id'', publicKey e)])"

text \<open>A parameter declared \<open>= null\<close>: \<open>undefined\<close> becomes \<open>null\<close>.\<close>

definition default_null :: "jsval \<Rightarrow> jsval" where
  "default_null v = (if v = JUndefined then JNull else v)"

text \<open>
  The object spread \<open>{...basePayload, file: fileData, filename: fileName}\<close> appends the
  two keys, which the base does not have.
\<close>

definition fileUploadPayload :: "env \<Rightarrow> world \<Rightarrow> jsval \<Rightarrow> jsval \<Rightarrow> jsval \<Rightarrow> jsval" where
  "fileUploadPayload e w text file_data file_name =
     JObj (basePayload e w text @ [(''file'', file_data), (''filename'', file_name)])"

definition upload_headers :: jsval where
  "upload_headers = JObj [(''Content-Type'', JStr ''application/json'')]"

text \<open>
  \<open>sendMessageViaSocket(text, fileData = null, fileName = null)\<close>. The session id, the
  profile fields and the key it reads are those of the world it is called in.
\<close>

definition sendMessageViaSocket :: "env \<Rightarrow> jsval \<Rightarrow> jsval \<Rightarrow> jsval \<Rightarrow> unit act" where
  "sendMessageViaSocket e text fileData0 fileName0 = (\<lambda>w0.
     (let fileData = default_null fileData0;
          fileName = default_null fileName0
      in
      if (case socketRef w0 of None \<Rightarrow> True | Some s \<Rightarrow> \<not> connected s) \<or> \<not> truthy (sessionId w0)
      then modify (\<lambda>w. w\<lparr>sessionError := Some ''Cannot send message/file: Chat not connected.''\<rparr>)
      else
        try_catch
          (if truthy fileData then
             andThen (fetch e fileUploadUrl upload_headers
                        (fileUploadPayload e w0 text fileData fileName)) (\<lambda>response.
             andThen (check_ok e ''File upload failed: '' '', '' response) (\<lambda>_.
             emit ''send_file'' (JObj [(''room'', sessionId w0)])))
           else
             emit ''send_message''
               (JObj [(''room'', sessionId w0),
                      (''messageData'', fileUploadPayload e w0 text JNull JNull)]))
          (\<lambda>error. modify (\<lambda>w. w\<lparr>sessionError :=
                                    Some (message_or e error ''Failed to send message/file.'')\<rparr>))) w0)"

section \<open>Predicates of the statements and example runs\<close>

text \<open>
  The three tests of the listeners' filter, as the source computes them: \<open>isReply\<close>,
  \<open>isExternalChannel\<close> and \<open>incomingConversationId === sId\<close>.
\<close>

definition direction_is_reply :: "jsval \<Rightarrow> bool" where
  "direction_is_reply message =
     (opt_toLowerCase (opt_get (opt_get message ''messageData'') ''message_type'')
      = Inr (JStr ''reply''))"

definition channel_is_external :: "jsval \<Rightarrow> bool" where
  "channel_is_external message =
     strict_eq (opt_get (opt_get message ''messageData'') ''channel'') (JStr ''external'')"

definition room_is :: "jsval \<Rightarrow> jsval \<Rightarrow> bool" where
  "room_is sId message = strict_eq (opt_get message ''room'') sId"

text \<open>
  An envelope whose \<open>message_type\<close> is a string or is absent, as the wire format has it;
  on any other value \<open>toLowerCase\<close> is not a function.
\<close>

definition direction_well_typed :: "jsval \<Rightarrow> bool" where
  "direction_well_typed message =
     (case opt_get (opt_get message ''messageData'') ''message_type'' of
        JUndefined \<Rightarrow> True | JNull \<Rightarrow> True | JStr s \<Rightarrow> True | _ \<Rightarrow> False)"

text \<open>The state of a freshly mounted provider: the initial values of its \<open>useState\<close> cells.\<close>

definition initial_world :: "env \<Rightarrow> jsval option \<Rightarrow> world" where
  "initial_world e stored =
     \<lparr>email = js_or (initialEmail e) (JStr []),
      firstName = js_or (initialFirstName e) (JStr []),
      lastName = js_or (initialLastName e) (JStr []),
      messages = [],
      sessionId = JNull,
      chatThemeColor = JStr ''#2196F3'',
      isLoadingSession = True,
      sessionError = None,
      sessionProfileExists = False,
      sessionStatus = StLoading,
      tempUserEmail = JStr [],
      tempUserName = JStr [],
      socketRef = None,
      storage = stored,
      trace = []\<rparr>"

text \<open>An environment with no props besides the key, whose every request is rejected.\<close>

definition offline_env :: env where
  "offline_env =
     \<lparr>publicKey = JStr ''pk_1'',
      initialEmail = JUndefined,
      initialFirstName = JUndefined,
      initialLastName = JUndefined,
      net = (\<lambda>n url body. Rejected ''Network request failed''),
      date_parse = (\<lambda>s. if s = ''2024-05-01T10:00:00Z'' then Some 1714557600000
                         else if s = ''2024-05-01T10:00:05Z'' then Some 1714557605000
                         else None),
      clock = (\<lambda>k. 1714557610000),
      random = (\<lambda>k. ''k3j9x2a''),
      type_error_message = ''undefined is not a function'',
      number_text = (\<lambda>n. ''1e+21'')\<rparr>"

text \<open>A provider whose socket is connected for session \<open>S1\<close>, with one message in the log.\<close>

definition first_reply :: message where
  "first_reply =
     \<lparr>msg_id = JStr ''2024-05-01T10:00:00Z'', conversationId = JStr ''S1'',
      msg_text = JStr ''hello'', sender = JStr ''bot'', timestamp = Some 1714557600000,
      fileUrl = JNull, fileName = JNull\<rparr>"

definition chatting_world :: world where
  "chatting_world =
     (initial_world offline_env (Some (JStr ''S1'')))
       \<lparr>sessionId := JStr ''S1'', isLoadingSession := False, sessionStatus := StActive,
        messages := [first_reply],
        socketRef := Some \<lparr>bound = JStr ''S1'', connected = True\<rparr>\<rparr>"

definition envelope :: "string \<Rightarrow> string \<Rightarrow> string \<Rightarrow> string \<Rightarrow> string \<Rightarrow> jsval" where
  "envelope room message_type channel time_created txt =
     JObj [(''room'', JStr room),
           (''messageData'', JObj [(''message_type'', JStr message_type),
                                   (''channel'', JStr channel),
                                   (''author_type'', JStr ''AI''),
                                   (''time_created'', JStr time_created),
                                   (''message'', JStr txt)])]"

text \<open>Where a send stands: not connected, or the answer to its upload request.\<close>

definition not_connected :: "world \<Rightarrow> bool" where
  "not_connected w =
     ((case socketRef w of None \<Rightarrow> True | Some s \<Rightarrow> \<not> connected s) \<or> \<not> truthy (sessionId w))"

definition upload_result :: "env \<Rightarrow> world \<Rightarrow> jsval \<Rightarrow> jsval \<Rightarrow> jsval \<Rightarrow> fetch_result" where
  "upload_result e w text file_data file_name =
     net e (length (filter is_fetch (trace w))) fileUploadUrl
       (fileUploadPayload e w text (default_null file_data) (default_null file_name))"

definition upload_failed :: "fetch_result \<Rightarrow> bool" where
  "upload_failed res = (case res of Rejected m \<Rightarrow> True | Resolved r \<Rightarrow> \<not> ok r)"

text \<open>The effects a call appended to the trace.\<close>

definition new_events :: "world \<Rightarrow> world \<Rightarrow> effect list" where
  "new_events w w' = drop (length (trace w)) (trace w')"

fun is_file_announcement :: "effect \<Rightarrow> bool" where
  "is_file_announcement (Emit name payload) = (name = ''send_file'')"
| "is_file_announcement ev = False"

fun is_emit :: "effect \<Rightarrow> bool" where
  "is_emit (Emit name payload) = True"
| "is_emit ev = False"

text \<open>An environment whose upload endpoint answers 500 and whose other requests are rejected.\<close>

definition failing_upload_env :: env where
  "failing_upload_env =
     offline_env\<lparr>net := (\<lambda>n url body.
        if url = fileUploadUrl
        then Resolved \<lparr>ok = False, status = 500, statusText = ''Internal Server Error'',
                       json = Inr (JObj [(''message'', JStr ''disk full'')])\<rparr>
        else Rejected ''Network request failed'')\<rparr>"

text \<open>An environment whose upload endpoint answers 200.\<close>

definition accepting_upload_env :: env where
  "accepting_upload_env =
     offline_env\<lparr>net := (\<lambda>n url body.
        if url = fileUploadUrl
        then Resolved \<lparr>ok = True, status = 200, statusText = ''OK'',
                       json = Inr (JObj [(''status'', JBool True)])\<rparr>
        else Rejected ''Network request failed'')\<rparr>"

text \<open>
  A provider with session \<open>S1\<close> loaded and no profile yet, before any request; an
  environment that accepts every profile submission, and one that accepts the first
  request of a run and rejects the later ones.
\<close>

definition pending_world :: world where
  "pending_world =
     (initial_world offline_env (Some (JStr ''S1'')))
       \<lparr>sessionId := JStr ''S1'', isLoadingSession := False, sessionStatus := StActive\<rparr>"

definition accepting_profile_env :: env where
  "accepting_profile_env =
     offline_env\<lparr>net := (\<lambda>n url body.
        if url = setProfileUrl
        then Resolved \<lparr>ok = True, status = 200, statusText = ''OK'',
                       json = Inr (JObj [(''status'', JBool True)])\<rparr>
        else Rejected ''Network request failed'')\<rparr>"

definition flaky_profile_env :: env where
  "flaky_profile_env =
     offline_env\<lparr>net := (\<lambda>n url body.
        if url = setProfileUrl \<and> n = 0
        then Resolved \<lparr>ok = True, status = 200, statusText = ''OK'',
                       json = Inr (JObj [(''status'', JBool True)])\<rparr>
        else Rejected ''Network request failed'')\<rparr>"

text \<open>
  The time value a valid \<open>Date\<close> is ordered by, and the answer \<open>getSession\<close> and
  \<open>initiateSession\<close> get to the request they make from a world \<open>w\<close>: the response, and
  the body it parses to.
\<close>

definition time_of :: "message \<Rightarrow> int" where
  "time_of m = (case timestamp m of None \<Rightarrow> 0 | Some t \<Rightarrow> t)"

definition session_response :: "env \<Rightarrow> world \<Rightarrow> jsval \<Rightarrow> fetch_result" where
  "session_response e w sId =
     net e (length (filter is_fetch (trace w))) getSessionUrl (JObj [(''session_id'', sId)])"

definition body_of :: "fetch_result \<Rightarrow> jsval" where
  "body_of res =
     (case res of
        Rejected m \<Rightarrow> JUndefined
      | Resolved r \<Rightarrow> (case json r of Inl m \<Rightarrow> JUndefined | Inr data \<Rightarrow> data))"

definition loaded_history :: "env \<Rightarrow> world \<Rightarrow> jsval \<Rightarrow> message list" where
  "loaded_history e w sId =
     (case map_history e (opt_get (body_of (session_response e w sId)) ''messages'') of
        Inl x \<Rightarrow> []
      | Inr ms \<Rightarrow> ms)"

definition initiate_response :: "env \<Rightarrow> world \<Rightarrow> jsval \<Rightarrow> jsval \<Rightarrow> jsval \<Rightarrow> fetch_result" where
  "initiate_response e w userEmail userFirstName userLastName =
     net e (length (filter is_fetch (trace w))) initiateSessionUrl
       (JObj [(''public_key'', publicKey e), (''email'', userEmail),
              (''first_name'', userFirstName), (''last_name'', userLastName)])"

text \<open>
  Two points of a run of \<open>setupCuoral\<close> from \<open>w0\<close>: the world in which the stored id is
  loaded, and the test that decides whether the run ends with a profile submission.
\<close>

definition setup_start :: "world \<Rightarrow> world" where
  "setup_start w0 =
     w0\<lparr>isLoadingSession := True, sessionStatus := StLoading,
        trace := trace w0 @ [RegisterPush, StorageGet]\<rparr>"

definition profile_follow_up :: "env \<Rightarrow> world \<Rightarrow> bool" where
  "profile_follow_up e w0 =
     (truthy (sessionId w0) \<and> \<not> sessionProfileExists w0
      \<and> (truthy (initialEmail e) \<or> truthy (initialFirstName e) \<or> truthy (initialLastName e))
      \<and> truthy (initialEmail e) \<and> combinedName e \<noteq> [])"

text \<open>
  A backend that no longer knows the stored session: the first request of the run (the
  load of the stored id) is answered 404, the second creates session \<open>S2\<close>, the third
  loads it with no profile and no history, and any later request is answered 404.
\<close>

definition not_found :: response where
  "not_found =
     \<lparr>ok = False, status = 404, statusText = ''Not Found'',
      json = Inr (JObj [(''message'', JStr ''Session not found'')])\<rparr>"

definition stale_net :: "nat \<Rightarrow> string \<Rightarrow> jsval \<Rightarrow> fetch_result" where
  "stale_net n url body =
     (if n = 1 \<and> url = initiateSessionUrl
      then Resolved \<lparr>ok = True, status = 200, statusText = ''OK'',
                     json = Inr (JObj [(''status'', JBool True), (''session_id'', JStr ''S2'')])\<rparr>
      else if n = 2 \<and> url = getSessionUrl
      then Resolved \<lparr>ok = True, status = 200, statusText = ''OK'',
                     json = Inr (JObj [(''session_id'', JStr ''S2''), (''status'', JStr ''active''),
                                       (''email'', JNull), (''name'', JNull),
                                       (''messages'', JArr [])])\<rparr>
      else Resolved not_found)"

definition stale_env :: env where
  "stale_env = offline_env\<lparr>net := stale_net\<rparr>"

text \<open>
  A fresh install: nothing stored, the first request creates session \<open>S1\<close>, the second
  loads it as active, with no profile and an empty history.
\<close>

definition fresh_net :: "nat \<Rightarrow> string \<Rightarrow> jsval \<Rightarrow> fetch_result" where
  "fresh_net n url body =
     (if n = 0 \<and> url = initiateSessionUrl
      then Resolved \<lparr>ok = True, status = 200, statusText = ''OK'',
                     json = Inr (JObj [(''status'', JBool True), (''session_id'', JStr ''S1'')])\<rparr>
      else if n = 1 \<and> url = getSessionUrl
      then Resolved \<lparr>ok = True, status = 200, statusText = ''OK'',
                     json = Inr (JObj [(''session_id'', JStr ''S1''), (''status'', JStr ''active''),
                                       (''email'', JNull), (''name'', JNull),
                                       (''messages'', JArr [])])\<rparr>
      else Rejected ''Network request failed'')"

definition fresh_env :: env where
  "fresh_env = offline_env\<lparr>net := fresh_net\<rparr>"

text \<open>
  A backend whose session \<open>S1\<close> is closed and has a history of two messages, the later one
  first; one whose session \<open>S1\<close> is active with an empty history; and a message dated
  before the one in the log of \<open>chatting_world\<close>.
\<close>

definition history_env :: env where
  "history_env =
     offline_env\<lparr>net := (\<lambda>n url body.
        if url = getSessionUrl
        then Resolved \<lparr>ok = True, status = 200, statusText = ''OK'',
               json = Inr (JObj [(''session_id'', JStr ''S1''), (''status'', JStr ''closed''),
                 (''messages'', JArr
                    [JObj [(''time_created'', JStr ''2024-05-01T10:00:05Z''),
                           (''message'', JStr ''second''), (''message_type'', JStr ''REPLY'')],
                     JObj [(''time_created'', JStr ''2024-05-01T10:00:00Z''),
                           (''message'', JStr ''first''), (''message_type'', JStr ''QUERY'')]])])\<rparr>
        else Rejected ''Network request failed'')\<rparr>"

definition empty_history_env :: env where
  "empty_history_env =
     offline_env\<lparr>net := (\<lambda>n url body.
        if url = getSessionUrl
        then Resolved \<lparr>ok = True, status = 200, statusText = ''OK'',
               json = Inr (JObj [(''session_id'', JStr ''S1''), (''status'', JStr ''active''),
                                 (''messages'', JArr [])])\<rparr>
        else Rejected ''Network request failed'')\<rparr>"

definition early_message :: message where
  "early_message =
     \<lparr>msg_id = JStr ''temp_msg_1714557500000_q1w2e3r'', conversationId = JUndefined,
      msg_text = JStr ''are you there?'', sender = JStr ''user'', timestamp = Some 1714557500000,
      fileUrl = JUndefined, fileName = JUndefined\<rparr>"

text \<open>
  An envelope for another room whose \<open>message_type\<close> is a number, and the same envelope for
  the bound room.
\<close>

definition numeric_type_envelope :: "string \<Rightarrow> jsval" where
  "numeric_type_envelope room =
     JObj [(''room'', JStr room),
           (''messageData'', JObj [(''message_type'', JNum 5), (''channel'', JStr ''external'')])]"




section \<open>Basic facts\<close>

lemmas act_defs =
  andThen_def ret_def throw_def lift_def modify_def effect_def try_catch_def ensure_def

lemma strict_eq_JStr: "strict_eq v (JStr s) = (v = JStr s)"
  by (cases v) simp_all

lemma truthy_js_or_empty: "truthy (js_or v (JStr [])) = truthy v"
  by (simp add: js_or_def)

subsection \<open>Running the combinators\<close>

text \<open>What a run of each combinator that returns normally must have done.\<close>

lemma andThen_Inr:
  "(andThen m f w = (Inr y, w')) = (\<exists>x w1. m w = (Inr x, w1) \<and> f x w1 = (Inr y, w'))"
  by (auto simp add: andThen_def split: prod.splits sum.splits)

lemma modify_run: "(modify g w = (r, w')) = (r = Inr () \<and> w' = g w)"
  by (auto simp add: modify_def)

lemma effect_run: "(effect ev w = (r, w')) = (r = Inr () \<and> w' = w\<lparr>trace := trace w @ [ev]\<rparr>)"
  by (auto simp add: effect_def modify_def)

lemma ret_run: "(ret x w = (r, w')) = (r = Inr x \<and> w' = w)"
  by (auto simp add: ret_def)

lemma throw_run: "(throw ex w = (r, w')) = (r = Inl ex \<and> w' = w)"
  by (auto simp add: throw_def)

lemma lift_run: "(lift v w = (r, w')) = (v = r \<and> w' = w)"
  by (auto simp add: lift_def)

lemma try_catch_Inr:
  "(try_catch m h w = (Inr y, w')) =
     (m w = (Inr y, w') \<or> (\<exists>ex w1. m w = (Inl ex, w1) \<and> h ex w1 = (Inr y, w')))"
  by (auto simp add: try_catch_def split: prod.splits sum.splits)

lemma ensure_run: "(ensure m fin w = (r, w')) = (\<exists>w1. m w = (r, w1) \<and> w' = fin w1)"
  by (auto simp add: ensure_def split: prod.splits)

lemma fetch_Inr:
  "(fetch e url hdrs body w = (Inr resp, w')) =
     (net e (length (filter is_fetch (trace w))) url body = Resolved resp
      \<and> w' = w\<lparr>trace := trace w @ [Fetch url hdrs body]\<rparr>)"
  by (auto simp add: fetch_def Let_def split: fetch_result.splits)

lemma check_ok_Inr: "(check_ok e prefix sep resp w = (Inr u, w')) = (ok resp \<and> w' = w)"
  by (auto simp add: check_ok_def response_json_def get_def act_defs split: sum.splits)

lemma response_json_Inr: "(response_json resp w = (Inr data, w')) = (json resp = Inr data \<and> w' = w)"
  by (auto simp add: response_json_def act_defs split: sum.splits)

lemma get_Inr: "(get v k = Inr x) = (\<not> nullish v \<and> x = opt_get v k)"
  by (auto simp add: get_def)

lemmas run_simps =
  andThen_Inr modify_run effect_run ret_run throw_run lift_run try_catch_Inr ensure_run
  fetch_Inr check_ok_Inr response_json_Inr get_Inr

lemma set_theme_Inr:
  "(set_theme data w = (Inr u, w')) =
     (\<not> nullish data \<and> 
      w' = (if truthy (opt_get data ''configuration'')
               \<and> truthy (opt_get (opt_get data ''configuration'') ''color'')
            then w\<lparr>chatThemeColor := opt_get (opt_get data ''configuration'') ''color''\<rparr> else w))"
  by (auto simp add: set_theme_def act_defs get_def)

lemma connectSocket_run:
  "(connectSocket sId w = (r, w')) =
     (r = Inr () \<and>
      w' = (if \<not> truthy sId then w
            else w\<lparr>socketRef := Some \<lparr>bound = sId, connected = False\<rparr>,
                   trace := trace w @ (case socketRef w of None \<Rightarrow> [] | Some old \<Rightarrow> [SocketClose])
                            @ [SocketOpen sId]\<rparr>))"
  by (auto simp add: connectSocket_def act_defs split: option.splits)

subsection \<open>Sorting\<close>

lemma js_insert_insort_key:
  assumes "timestamp x \<noteq> None" and "\<forall>y \<in> set ys. timestamp y \<noteq> None"
  shows "js_insert x ys = insort_key time_of x ys"
  using assms
  by (induction ys) (auto simp add: sorts_after_def compare_time_def time_of_def)

lemma js_sort_sort_key:
  "\<forall>x \<in> set xs. timestamp x \<noteq> None \<Longrightarrow> js_sort xs = sort_key time_of xs"
  unfolding js_sort_def sort_key_def
proof (induction xs)
  case Nil
  show ?case by simp
next
  case (Cons x xs)
  then have "foldr js_insert xs [] = foldr (insort_key time_of) xs []" by simp
  moreover have "\<forall>y \<in> set (foldr (insort_key time_of) xs []). timestamp y \<noteq> None"
    using Cons.prems by (simp add: sort_key_def [symmetric])
  ultimately show ?case using Cons.prems by (simp add: js_insert_insort_key)
qed

lemma mset_js_insert: "mset (js_insert x ys) = add_mset x (mset ys)"
  by (induction ys) simp_all

lemma mset_js_sort: "mset (js_sort xs) = mset xs"
  unfolding js_sort_def by (induction xs) (simp_all add: mset_js_insert)

lemma js_sort_sorted:
  assumes "\<forall>x \<in> set xs. timestamp x \<noteq> None"
  shows "sorted (map time_of (js_sort xs))"
    and "filter (\<lambda>x. time_of x = k) (js_sort xs) = filter (\<lambda>x. time_of x = k) xs"
  using assms by (simp_all add: js_sort_sort_key sort_key_stable)

subsection \<open>Successful loads\<close>

lemma getSession_try_Inr:
  assumes "getSession_try e sId w = (Inr b, w')"
  shows "\<exists>resp data loaded.
           session_response e w sId = Resolved resp \<and> ok resp \<and> json resp = Inr data
         \<and> truthy (opt_get data ''session_id'') \<and> b
         \<and> map_history e (opt_get data ''messages'') = Inr loaded
         \<and> messages w' = js_sort loaded
         \<and> sessionId w' = opt_get data ''session_id''
         \<and> sessionProfileExists w' = (truthy (opt_get data ''email'') \<and> truthy (opt_get data ''name''))
         \<and> sessionStatus w' = (if strict_eq (opt_get data ''status'') (JStr ''closed'')
                                then StClosed else StActive)
         \<and> socketRef w' = (if strict_eq (opt_get data ''status'') (JStr ''closed'') then socketRef w
                            else Some \<lparr>bound = opt_get data ''session_id'', connected = False\<rparr>)
         \<and> trace w' = trace w @ [Fetch getSessionUrl (json_headers e) (JObj [(''session_id'', sId)])]
              @ (if strict_eq (opt_get data ''status'') (JStr ''closed'') then []
                 else (case socketRef w of None \<Rightarrow> [] | Some old \<Rightarrow> [SocketClose])
                      @ [SocketOpen (opt_get data ''session_id'')])
         \<and> sessionError w' = sessionError w \<and> isLoadingSession w' = isLoadingSession w
         \<and> storage w' = storage w"
  using assms unfolding getSession_try_def session_response_def
  apply (simp add: run_simps set_theme_Inr connectSocket_run Let_def truthy_js_or_empty split: if_splits)
  apply auto
  done

lemma getSession_True:
  assumes "getSession e sId w = (Inr True, w')"
  shows "\<exists>resp data loaded.
           session_response e w sId = Resolved resp \<and> ok resp \<and> json resp = Inr data
         \<and> truthy sId \<and> truthy (opt_get data ''session_id'')
         \<and> map_history e (opt_get data ''messages'') = Inr loaded
         \<and> messages w' = js_sort loaded
         \<and> sessionId w' = opt_get data ''session_id''
         \<and> sessionProfileExists w' = (truthy (opt_get data ''email'') \<and> truthy (opt_get data ''name''))
         \<and> sessionStatus w' = (if strict_eq (opt_get data ''status'') (JStr ''closed'')
                                then StClosed else StActive)
         \<and> socketRef w' = (if strict_eq (opt_get data ''status'') (JStr ''closed'') then socketRef w
                            else Some \<lparr>bound = opt_get data ''session_id'', connected = False\<rparr>)
         \<and> trace w' = trace w @ [Fetch getSessionUrl (json_headers e) (JObj [(''session_id'', sId)])]
              @ (if strict_eq (opt_get data ''status'') (JStr ''closed'') then []
                 else (case socketRef w of None \<Rightarrow> [] | Some old \<Rightarrow> [SocketClose])
                      @ [SocketOpen (opt_get data ''session_id'')])
         \<and> sessionError w' = None \<and> isLoadingSession w' = False
         \<and> storage w' = storage w"
proof -
  let ?w0 = "w\<lparr>isLoadingSession := True, sessionError := None, sessionStatus := StLoading\<rparr>"
  from assms have sid: "truthy sId"
    by (cases "truthy sId") (simp_all add: getSession_def run_simps)
  with assms obtain w1 where inner: "getSession_try e sId ?w0 = (Inr True, w1)"
    and w': "w' = w1\<lparr>isLoadingSession := False\<rparr>"
    by (auto simp add: getSession_def run_simps)
  have same: "session_response e ?w0 sId = session_response e w sId"
    by (simp add: session_response_def)
  from getSession_try_Inr [OF inner] sid show ?thesis
    unfolding same w' by (elim exE conjE) (intro exI conjI, auto)
qed

lemma initiateSession_try_True:
  assumes "initiateSession_try e userEmail userFirstName userLastName w = (Inr True, w')"
  shows "\<exists>resp data rest.
           initiate_response e w userEmail userFirstName userLastName = Resolved resp
         \<and> ok resp \<and> json resp = Inr data
         \<and> truthy (opt_get data ''status'') \<and> truthy (opt_get data ''session_id'')
         \<and> storage w' = Some (opt_get data ''session_id'')
         \<and> sessionStatus w' = StActive \<and> sessionError w' = None
         \<and> trace w' = trace w @ [Fetch initiateSessionUrl (json_headers e)
                (JObj [(''public_key'', publicKey e), (''email'', userEmail),
                       (''first_name'', userFirstName), (''last_name'', userLastName)]),
              StorageSet (opt_get data ''session_id'')] @ rest"
  using assms unfolding initiateSession_try_def initiate_response_def
  apply (simp add: run_simps set_theme_Inr split: if_splits)
  apply (auto dest!: getSession_True)
  done

lemma initiateSession_True:
  assumes "initiateSession e userEmail userFirstName userLastName w = (Inr True, w')"
  shows "\<exists>resp data.
           initiate_response e w userEmail userFirstName userLastName = Resolved resp
         \<and> ok resp \<and> json resp = Inr data
         \<and> truthy (opt_get data ''status'') \<and> truthy (opt_get data ''session_id'')
         \<and> storage w' = Some (opt_get data ''session_id'')
         \<and> sessionStatus w' = StActive \<and> sessionError w' = None \<and> isLoadingSession w' = False
         \<and> StorageSet (opt_get data ''session_id'') \<in> set (new_events w w')"
proof -
  let ?w0 = "w\<lparr>isLoadingSession := True, sessionError := None, sessionStatus := StLoading,
                 messages := [], sessionProfileExists := False\<rparr>"
  from assms obtain w1 where inner:
    "initiateSession_try e userEmail userFirstName userLastName ?w0 = (Inr True, w1)"
    and w': "w' = w1\<lparr>isLoadingSession := False\<rparr>"
    by (auto simp add: initiateSession_def run_simps)
  have same: "initiate_response e ?w0 userEmail userFirstName userLastName
              = initiate_response e w userEmail userFirstName userLastName"
    by (simp add: initiate_response_def)
  from initiateSession_try_True [OF inner] show ?thesis
    unfolding same w' new_events_def by (elim exE conjE) (intro exI conjI, auto)
qed

lemma setProfile_storage:
  "storage (snd (setProfile e sId userEmail userName w)) = storage w"
  unfolding setProfile_def setProfile_try_def check_ok_def response_json_def fetch_def get_def
  by (simp add: act_defs Let_def split: sum.splits fetch_result.splits prod.splits)

lemma setProfile_outcome:
  "setProfile e sId userEmail userName w = (r, w') \<Longrightarrow>
   r = Inr True \<and> sessionStatus w' = StActive \<or> r = Inr False \<and> sessionStatus w' = StError"
  unfolding setProfile_def setProfile_try_def check_ok_def response_json_def fetch_def get_def
  by (auto simp add: act_defs Let_def split: sum.splits fetch_result.splits prod.splits if_splits)

lemma setupCuoral_fallback:
  assumes stored: "storage w0 = Some stored" "truthy stored"
    and fails: "getSession e stored (setup_start w0) = (Inr False, wa)"
    and created: "initiateSession e (initialEmail e) (initialFirstName e) (initialLastName e) wa
                  = (Inr True, wb)"
  shows "setupCuoral e w0 =
     (Inr (),
      (if profile_follow_up e w0
       then snd (setProfile e (sessionId w0) (initialEmail e) (JStr (combinedName e)) wb)
       else wb)\<lparr>isLoadingSession := False\<rparr>)"
proof -
  have fails': "getSession e stored
      (w0\<lparr>isLoadingSession := True, sessionStatus := StLoading,
          trace := trace w0 @ [RegisterPush, StorageGet]\<rparr>) = (Inr False, wa)"
    using fails by (simp add: setup_start_def)
  obtain r3 wc where prof:
    "setProfile e (sessionId w0) (initialEmail e) (JStr (combinedName e)) wb = (r3, wc)"
    by (metis prod.collapse)
  from setProfile_outcome [OF prof] have r3: "r3 = Inr True \<or> r3 = Inr False" by auto
  show ?thesis
    unfolding setupCuoral_def storage_get_def
    using stored r3
    by (auto simp add: act_defs fails' created prof profile_follow_up_def)
qed

subsection \<open>Evaluation\<close>

lemmas eval_defs =
  getSession_def getSession_try_def initiateSession_def initiateSession_try_def
  setProfile_def setProfile_try_def setupCuoral_def storage_get_def
  check_ok_def response_json_def fetch_def get_def set_theme_def connectSocket_def
  json_headers_def first_part_def rest_parts_def js_or_def js_sort_def
  initiateSessionUrl_def getSessionUrl_def setProfileUrl_def fileUploadUrl_def
  act_defs Let_def

section \<open>The listeners' filter\<close>

lemma on_send_message_dropped:
  "\<not> (direction_is_reply message \<and> channel_is_external message \<and> room_is sId message) \<Longrightarrow>
   snd (on_send_message e sId message w) = w"
  unfolding on_send_message_def direction_is_reply_def channel_is_external_def room_is_def
  by (cases "opt_toLowerCase (opt_get (opt_get message ''messageData'') ''message_type'')")
     (auto simp add: act_defs Let_def strict_eq_JStr)

lemma on_send_file_dropped:
  "\<not> (direction_is_reply message \<and> channel_is_external message \<and> room_is sId message) \<Longrightarrow>
   snd (on_send_file e sId message w) = w"
  unfolding on_send_file_def direction_is_reply_def channel_is_external_def room_is_def
  by (cases "opt_toLowerCase (opt_get (opt_get message ''messageData'') ''message_type'')")
     (auto simp add: act_defs Let_def strict_eq_JStr)

lemma well_typed_no_throw:
  "direction_well_typed message \<Longrightarrow>
   fst (on_send_message e sId message w) = Inr () \<and> fst (on_send_file e sId message w) = Inr ()"
  unfolding on_send_message_def on_send_file_def direction_well_typed_def
  by (cases "opt_get (opt_get message ''messageData'') ''message_type''")
     (auto simp add: act_defs Let_def)

text \<open>
  While the socket is bound to session id \<open>bound s\<close>, a \<open>send_message\<close> or \<open>send_file\<close>
  envelope changes the message log only if its direction is reply (\<open>message_type\<close>,
  lower-cased, is \<open>reply\<close>), its channel is external and its room is the bound id. An
  envelope failing any of the three leaves the whole world as it was: the log, every other
  state cell and the trace of effects. No exception is raised for it when its
  \<open>message_type\<close> is a string or absent.
\<close>

lemma filter_frame:
  assumes "socketRef w = Some s"
    and "ev = EvSendMessage message \<or> ev = EvSendFile message"
  shows "(messages (snd (deliver e ev w)) \<noteq> messages w \<longrightarrow>
            direction_is_reply message \<and> channel_is_external message \<and> room_is (bound s) message)
       \<and> (\<not> (direction_is_reply message \<and> channel_is_external message \<and> room_is (bound s) message) \<longrightarrow>
            snd (deliver e ev w) = w
            \<and> (direction_well_typed message \<longrightarrow> deliver e ev w = (Inr (), w)))"
proof -
  let ?ok = "direction_is_reply message \<and> channel_is_external message \<and> room_is (bound s) message"
  have run: "deliver e ev w = on_send_message e (bound s) message w
             \<or> deliver e ev w = on_send_file e (bound s) message w"
    using assms by (auto simp add: deliver_def)
  have dropped: "snd (deliver e ev w) = w" if "\<not> ?ok"
    using run that on_send_message_dropped [of message "bound s" e w]
      on_send_file_dropped [of message "bound s" e w] by auto
  have silent: "deliver e ev w = (Inr (), w)" if "\<not> ?ok" "direction_well_typed message"
    using run dropped [OF that(1)] well_typed_no_throw [OF that(2), of e "bound s" w]
    by (metis prod.collapse)
  show ?thesis
  proof (cases ?ok)
    case True
    then show ?thesis by simp
  next
    case False
    from dropped [OF False] silent [OF False] False show ?thesis by simp
  qed
qed

lemma filter_frame_example:
  "socketRef chatting_world = Some \<lparr>bound = JStr ''S1'', connected = True\<rparr>
   \<and> \<not> room_is (JStr ''S1'') (envelope ''S2'' ''REPLY'' ''external'' ''2024-05-01T10:00:05Z'' ''hi'')
   \<and> direction_well_typed (envelope ''S2'' ''REPLY'' ''external'' ''2024-05-01T10:00:05Z'' ''hi'')
   \<and> deliver offline_env
        (EvSendMessage (envelope ''S2'' ''REPLY'' ''external'' ''2024-05-01T10:00:05Z'' ''hi''))
        chatting_world = (Inr (), chatting_world)
   \<and> messages (snd (deliver offline_env
        (EvSendFile (envelope ''S1'' ''Reply'' ''external'' ''2024-05-01T10:00:05Z'' ''hi''))
        chatting_world)) \<noteq> messages chatting_world
   \<and> direction_is_reply (envelope ''S1'' ''Reply'' ''external'' ''2024-05-01T10:00:05Z'' ''hi'')"
proof -
  let ?s = "\<lparr>bound = JStr ''S1'', connected = True\<rparr>"
  let ?drop = "envelope ''S2'' ''REPLY'' ''external'' ''2024-05-01T10:00:05Z'' ''hi''"
  let ?keep = "envelope ''S1'' ''Reply'' ''external'' ''2024-05-01T10:00:05Z'' ''hi''"
  have sock: "socketRef chatting_world = Some ?s"
    by (simp add: chatting_world_def initial_world_def)
  have room: "\<not> room_is (JStr ''S1'') ?drop"
    by (simp add: room_is_def envelope_def)
  have typed: "direction_well_typed ?drop"
    by (simp add: direction_well_typed_def envelope_def)
  have changed: "messages (snd (deliver offline_env (EvSendFile ?keep) chatting_world))
                 \<noteq> messages chatting_world"
    by (simp add: deliver_def on_send_file_def newFileMessageFromSocket_def merge_incoming_def
        is_duplicate_def last_message_def js_sort_def sorts_after_def compare_time_def
        chatting_world_def initial_world_def offline_env_def envelope_def first_reply_def
        act_defs Let_def js_or_def lower_char_def)
  from filter_frame [OF sock, of "EvSendMessage ?drop" ?drop offline_env]
    filter_frame [OF sock, of "EvSendFile ?keep" ?keep offline_env]
  show ?thesis using sock room typed changed by simp
qed

text \<open>
  Claim C1 has every envelope that fails one of the three tests dropped silently. With the
  socket bound to \<open>S1\<close>, the \<open>send_message\<close> listener is given an envelope for room \<open>S2\<close>
  whose \<open>message_type\<close> is the number \<open>5\<close>: it fails the room test and the direction test, the
  world stays as it was, but the listener throws a TypeError, because it lower-cases
  \<open>message_type\<close> before it looks at the room. The \<open>send_file\<close> listener, which tests the
  channel and the room first, returns normally on the same envelope, and throws in its
  turn once the room is \<open>S1\<close>.
\<close>

theorem send_message_throws_on_numeric_type:
  "socketRef chatting_world = Some \<lparr>bound = JStr ''S1'', connected = True\<rparr>
   \<and> \<not> room_is (JStr ''S1'') (numeric_type_envelope ''S2'')
   \<and> \<not> direction_is_reply (numeric_type_envelope ''S2'')
   \<and> deliver offline_env (EvSendMessage (numeric_type_envelope ''S2'')) chatting_world
       = (Inl TypeError, chatting_world)
   \<and> deliver offline_env (EvSendFile (numeric_type_envelope ''S2'')) chatting_world
       = (Inr (), chatting_world)
   \<and> \<not> direction_is_reply (numeric_type_envelope ''S1'')
   \<and> deliver offline_env (EvSendFile (numeric_type_envelope ''S1'')) chatting_world
       = (Inl TypeError, chatting_world)"
  by (simp add: deliver_def on_send_message_def on_send_file_def numeric_type_envelope_def
      room_is_def direction_is_reply_def chatting_world_def initial_world_def act_defs Let_def)

text \<open>
  Claim C9. An envelope whose \<open>messageData\<close> is \<open>null\<close>, \<open>undefined\<close> or missing (also when
  the envelope itself is \<open>null\<close> or \<open>undefined\<close>) makes both listeners return at once:
  no exception, and the world, with its log and its trace of effects, is unchanged.
\<close>

theorem missing_messageData_ignored:
  "nullish (opt_get message ''messageData'') \<Longrightarrow>
   on_send_message e sId message w = (Inr (), w) \<and> on_send_file e sId message w = (Inr (), w)"
  by (cases "opt_get message ''messageData''")
     (simp_all add: on_send_message_def on_send_file_def ret_def)

theorem missing_messageData_ignored_witness:
  "nullish (opt_get (JObj [(''room'', JStr ''S1''), (''messageData'', JNull)]) ''messageData'')
   \<and> on_send_message offline_env (JStr ''S1'')
        (JObj [(''room'', JStr ''S1''), (''messageData'', JNull)]) chatting_world
      = (Inr (), chatting_world)
   \<and> on_send_file offline_env (JStr ''S1'')
        (JObj [(''room'', JStr ''S1''), (''messageData'', JNull)]) chatting_world
      = (Inr (), chatting_world)"
  using missing_messageData_ignored
    [of "JObj [(''room'', JStr ''S1''), (''messageData'', JNull)]" offline_env "JStr ''S1''"
      chatting_world]
  by simp

section \<open>Loading a session\<close>

text \<open>
  Claim C10. With a falsy session id (\<open>null\<close>, \<open>undefined\<close>, the empty string, and also
  \<open>0\<close> or \<open>false\<close>) \<open>getSession\<close> returns \<open>false\<close>, stores the error
  \<open>Session ID is missing for getSession.\<close>, sets the status to \<open>error\<close> and clears the
  loading flag; nothing else changes, so the log is as before and the trace shows no
  request.
\<close>

theorem getSession_missing_id:
  "\<not> truthy sId \<Longrightarrow>
   getSession e sId w =
     (Inr False, w\<lparr>sessionError := Some ''Session ID is missing for getSession.'',
                   isLoadingSession := False, sessionStatus := StError\<rparr>)
   \<and> messages (snd (getSession e sId w)) = messages w
   \<and> trace (snd (getSession e sId w)) = trace w"
  by (simp add: getSession_def andThen_def modify_def ret_def)

theorem getSession_missing_id_witness:
  "\<not> truthy (JStr [])
   \<and> getSession offline_env (JStr []) chatting_world =
       (Inr False, chatting_world\<lparr>sessionError := Some ''Session ID is missing for getSession.'',
                                   isLoadingSession := False, sessionStatus := StError\<rparr>)
   \<and> messages (snd (getSession offline_env (JStr []) chatting_world)) = [first_reply]
   \<and> trace (snd (getSession offline_env (JStr []) chatting_world)) = []"
  using getSession_missing_id [of "JStr []" offline_env chatting_world]
  by (simp add: chatting_world_def initial_world_def)

section \<open>Duplicates\<close>

text \<open>
  Claim C2. When the log is not empty and the candidate has the id of the last entry, or
  its text, sender and file url are those of the last entry (compared with \<open>===\<close>), the
  insertion does nothing: the updater returns the world it was given, so the log is the
  same and no sound or notification is added to the trace. The same holds for the two
  listeners, whatever the envelope the candidate was built from.
\<close>

theorem duplicate_is_noop:
  assumes "messages w = prev @ [lastMessage]"
    and "strict_eq (msg_id lastMessage) (msg_id new)
         \<or> (strict_eq (msg_text lastMessage) (msg_text new)
            \<and> strict_eq (sender lastMessage) (sender new)
            \<and> strict_eq (fileUrl lastMessage) (fileUrl new))"
  shows "merge_incoming new title body w = w
       \<and> (new = newMessageFromSocket e (opt_get message ''room'') (opt_get message ''messageData'')
            \<longrightarrow> snd (on_send_message e sId message w) = w)
       \<and> (new = newFileMessageFromSocket e (opt_get message ''room'') (opt_get message ''messageData'')
            \<longrightarrow> snd (on_send_file e sId message w) = w)"
proof -
  have dup: "is_duplicate (messages w) new"
    using assms by (simp add: is_duplicate_def last_message_def)
  then have noop: "merge_incoming new title body w = w" for title body
    by (simp add: merge_incoming_def)
  have "snd (on_send_message e sId message w) = w"
    if "new = newMessageFromSocket e (opt_get message ''room'') (opt_get message ''messageData'')"
    unfolding on_send_message_def using noop that
    by (cases "opt_toLowerCase (opt_get (opt_get message ''messageData'') ''message_type'')")
       (simp_all add: act_defs Let_def)
  moreover have "snd (on_send_file e sId message w) = w"
    if "new = newFileMessageFromSocket e (opt_get message ''room'') (opt_get message ''messageData'')"
    unfolding on_send_file_def using noop that
    by (cases "opt_toLowerCase (opt_get (opt_get message ''messageData'') ''message_type'')")
       (simp_all add: act_defs Let_def)
  ultimately show ?thesis using noop by simp
qed

theorem duplicate_is_noop_witness:
  "messages chatting_world = [] @ [first_reply]
   \<and> strict_eq (msg_id first_reply) (msg_id (newMessageFromSocket offline_env
         (opt_get (envelope ''S1'' ''REPLY'' ''external'' ''2024-05-01T10:00:00Z'' ''again'') ''room'')
         (opt_get (envelope ''S1'' ''REPLY'' ''external'' ''2024-05-01T10:00:00Z'' ''again'') ''messageData'')))
   \<and> snd (on_send_message offline_env (JStr ''S1'')
         (envelope ''S1'' ''REPLY'' ''external'' ''2024-05-01T10:00:00Z'' ''again'') chatting_world)
      = chatting_world"
proof -
  let ?m = "envelope ''S1'' ''REPLY'' ''external'' ''2024-05-01T10:00:00Z'' ''again''"
  let ?new = "newMessageFromSocket offline_env (opt_get ?m ''room'') (opt_get ?m ''messageData'')"
  have log: "messages chatting_world = [] @ [first_reply]"
    by (simp add: chatting_world_def initial_world_def)
  have same: "strict_eq (msg_id first_reply) (msg_id ?new)"
    by (simp add: first_reply_def newMessageFromSocket_def envelope_def js_or_def)
  from duplicate_is_noop [OF log, where new = ?new and e = offline_env and message = ?m
      and sId = "JStr ''S1''"] same log
  show ?thesis by simp
qed

section \<open>Sending\<close>

lemmas send_defs =
  sendMessageViaSocket_def check_ok_def response_json_def fetch_def emit_def get_def
  new_events_def not_connected_def upload_result_def upload_failed_def

lemma send_frame:
  "sendMessageViaSocket e t file_data file_name w = (r, w') \<Longrightarrow>
   r = Inr () \<and> w'\<lparr>sessionError := sessionError w, trace := trace w\<rparr> = w"
  unfolding send_defs
  by (auto simp add: act_defs Let_def split: option.splits sum.splits fetch_result.splits prod.splits if_splits)

lemma send_not_connected:
  "not_connected w \<Longrightarrow>
   sendMessageViaSocket e t file_data file_name w =
     (Inr (), w\<lparr>sessionError := Some ''Cannot send message/file: Chat not connected.''\<rparr>)"
  unfolding send_defs
  by (auto simp add: act_defs Let_def split: option.splits)

lemma send_upload_failed:
  assumes "\<not> not_connected w" and "truthy (default_null file_data)"
    and "upload_failed (upload_result e w t file_data file_name)"
    and "sendMessageViaSocket e t file_data file_name w = (r, w')"
  shows "sessionError w' \<noteq> None
       \<and> new_events w w' = [Fetch fileUploadUrl upload_headers
           (fileUploadPayload e w t (default_null file_data) (default_null file_name))]"
  using assms unfolding send_defs
  by (auto simp add: act_defs Let_def split: option.splits sum.splits fetch_result.splits)

lemma send_upload_ok:
  assumes "\<not> not_connected w" and "truthy (default_null file_data)"
    and "upload_result e w t file_data file_name = Resolved resp" and "ok resp"
  shows "sendMessageViaSocket e t file_data file_name w =
     (Inr (), w\<lparr>trace := trace w @ [Fetch fileUploadUrl upload_headers
                   (fileUploadPayload e w t (default_null file_data) (default_null file_name)),
                   Emit ''send_file'' (JObj [(''room'', sessionId w)])]\<rparr>)"
  using assms unfolding send_defs
  by (auto simp add: act_defs Let_def split: option.splits sum.splits fetch_result.splits)

lemma send_text:
  assumes "\<not> not_connected w" and "\<not> truthy (default_null file_data)"
  shows "sendMessageViaSocket e t file_data file_name w =
     (Inr (), w\<lparr>trace := trace w @ [Emit ''send_message''
        (JObj [(''room'', sessionId w), (''messageData'', fileUploadPayload e w t JNull JNull)])]\<rparr>)"
  using assms unfolding send_defs
  by (auto simp add: act_defs Let_def split: option.splits sum.splits fetch_result.splits)

text \<open>
  Claim C7. A call of \<open>sendMessageViaSocket\<close> never throws and changes nothing but
  \<open>sessionError\<close> and the trace of effects: the status, the session id, the stored id and
  the log are those before the call. When the chat is not connected, or the upload request
  is rejected or answered with a non-ok response, an error is stored and nothing is
  emitted on the socket.
\<close>

theorem send_failure_keeps_session:
  assumes run: "sendMessageViaSocket e t file_data file_name w = (r, w')"
  shows "r = Inr ()
       \<and> w'\<lparr>sessionError := sessionError w, trace := trace w\<rparr> = w
       \<and> sessionStatus w' = sessionStatus w \<and> sessionId w' = sessionId w
       \<and> storage w' = storage w \<and> messages w' = messages w
       \<and> (not_connected w
            \<or> truthy (default_null file_data)
               \<and> upload_failed (upload_result e w t file_data file_name)
          \<longrightarrow> sessionError w' \<noteq> None \<and> filter is_emit (new_events w w') = [])"
proof -
  from send_frame [OF run]
  have r: "r = Inr ()" and frame: "w'\<lparr>sessionError := sessionError w, trace := trace w\<rparr> = w"
    by simp_all
  have "sessionStatus (w'\<lparr>sessionError := sessionError w, trace := trace w\<rparr>) = sessionStatus w"
    and "sessionId (w'\<lparr>sessionError := sessionError w, trace := trace w\<rparr>) = sessionId w"
    and "storage (w'\<lparr>sessionError := sessionError w, trace := trace w\<rparr>) = storage w"
    and "messages (w'\<lparr>sessionError := sessionError w, trace := trace w\<rparr>) = messages w"
    by (simp_all only: frame)
  then have fields: "sessionStatus w' = sessionStatus w \<and> sessionId w' = sessionId w
       \<and> storage w' = storage w \<and> messages w' = messages w"
    by simp
  have failed: "sessionError w' \<noteq> None \<and> filter is_emit (new_events w w') = []"
    if "not_connected w
        \<or> truthy (default_null file_data) \<and> upload_failed (upload_result e w t file_data file_name)"
  proof (cases "not_connected w")
    case True
    from send_not_connected [OF True, of e t file_data file_name] run
    show ?thesis by (auto simp add: new_events_def)
  next
    case False
    with that have "truthy (default_null file_data)"
      and "upload_failed (upload_result e w t file_data file_name)" by simp_all
    from send_upload_failed [OF False this run]
    show ?thesis by simp
  qed
  show ?thesis using r frame fields failed by simp
qed

theorem send_failure_keeps_session_witness:
  "\<not> not_connected chatting_world
   \<and> truthy (default_null (JStr ''data:image/png;base64,AAAA''))
   \<and> upload_failed (upload_result failing_upload_env chatting_world (JStr ''photo'')
        (JStr ''data:image/png;base64,AAAA'') (JStr ''a.png''))
   \<and> fst (sendMessageViaSocket failing_upload_env (JStr ''photo'')
        (JStr ''data:image/png;base64,AAAA'') (JStr ''a.png'') chatting_world) = Inr ()
   \<and> sessionError (snd (sendMessageViaSocket failing_upload_env (JStr ''photo'')
        (JStr ''data:image/png;base64,AAAA'') (JStr ''a.png'') chatting_world)) \<noteq> None
   \<and> sessionStatus (snd (sendMessageViaSocket failing_upload_env (JStr ''photo'')
        (JStr ''data:image/png;base64,AAAA'') (JStr ''a.png'') chatting_world)) = StActive
   \<and> messages (snd (sendMessageViaSocket failing_upload_env (JStr ''photo'')
        (JStr ''data:image/png;base64,AAAA'') (JStr ''a.png'') chatting_world)) = [first_reply]"
proof -
  let ?run = "sendMessageViaSocket failing_upload_env (JStr ''photo'')
        (JStr ''data:image/png;base64,AAAA'') (JStr ''a.png'') chatting_world"
  have conn: "\<not> not_connected chatting_world"
    by (simp add: not_connected_def chatting_world_def initial_world_def)
  have att: "truthy (default_null (JStr ''data:image/png;base64,AAAA''))"
    by (simp add: default_null_def)
  have failed: "upload_failed (upload_result failing_upload_env chatting_world (JStr ''photo'')
        (JStr ''data:image/png;base64,AAAA'') (JStr ''a.png''))"
    by (simp add: upload_failed_def upload_result_def failing_upload_env_def)
  have st: "sessionStatus chatting_world = StActive" "messages chatting_world = [first_reply]"
    by (simp_all add: chatting_world_def initial_world_def)
  from send_failure_keeps_session [of failing_upload_env "JStr ''photo''"
      "JStr ''data:image/png;base64,AAAA''" "JStr ''a.png''" chatting_world "fst ?run" "snd ?run"]
    conn att failed st
  show ?thesis by simp
qed


text \<open>
  Claim C5. If a call of \<open>sendMessageViaSocket\<close> emits the \<open>send_file\<close> announcement, then
  its upload request was answered with an ok response, and the effects of the call are
  exactly the upload request followed by the announcement. If the upload request is
  rejected or answered with a non-ok response, no announcement is emitted.
\<close>

theorem announcement_after_upload:
  assumes run: "sendMessageViaSocket e t file_data file_name w = (r, w')"
  shows "((\<exists>ev \<in> set (new_events w w'). is_file_announcement ev) \<longrightarrow>
            (\<exists>resp. upload_result e w t file_data file_name = Resolved resp \<and> ok resp)
            \<and> new_events w w' =
                [Fetch fileUploadUrl upload_headers
                   (fileUploadPayload e w t (default_null file_data) (default_null file_name)),
                 Emit ''send_file'' (JObj [(''room'', sessionId w)])])
       \<and> (upload_failed (upload_result e w t file_data file_name) \<longrightarrow>
            \<not> (\<exists>ev \<in> set (new_events w w'). is_file_announcement ev))"
proof (cases "not_connected w")
  case True
  from send_not_connected [OF True, of e t file_data file_name] run
  show ?thesis by (auto simp add: new_events_def)
next
  case connected: False
  show ?thesis
  proof (cases "truthy (default_null file_data)")
    case False
    from send_text [OF connected False, of e t file_name] run
    show ?thesis by (auto simp add: new_events_def)
  next
    case attachment: True
    show ?thesis
    proof (cases "upload_failed (upload_result e w t file_data file_name)")
      case True
      from send_upload_failed [OF connected attachment True run]
      show ?thesis using True by simp
    next
      case False
      then obtain resp where resp: "upload_result e w t file_data file_name = Resolved resp" "ok resp"
        by (auto simp add: upload_failed_def split: fetch_result.splits)
      from send_upload_ok [OF connected attachment resp] run
      show ?thesis using False resp by (auto simp add: new_events_def)
    qed
  qed
qed

theorem announcement_after_upload_witness:
  "upload_failed (upload_result failing_upload_env chatting_world (JStr ''photo'')
        (JStr ''data:image/png;base64,AAAA'') (JStr ''a.png''))
   \<and> \<not> (\<exists>ev \<in> set (new_events chatting_world
            (snd (sendMessageViaSocket failing_upload_env (JStr ''photo'')
               (JStr ''data:image/png;base64,AAAA'') (JStr ''a.png'') chatting_world))).
          is_file_announcement ev)
   \<and> (\<exists>ev \<in> set (new_events chatting_world
            (snd (sendMessageViaSocket accepting_upload_env (JStr ''photo'')
               (JStr ''data:image/png;base64,AAAA'') (JStr ''a.png'') chatting_world))).
          is_file_announcement ev)
   \<and> new_events chatting_world
        (snd (sendMessageViaSocket accepting_upload_env (JStr ''photo'')
           (JStr ''data:image/png;base64,AAAA'') (JStr ''a.png'') chatting_world))
      = [Fetch fileUploadUrl upload_headers
           (fileUploadPayload accepting_upload_env chatting_world (JStr ''photo'')
              (default_null (JStr ''data:image/png;base64,AAAA'')) (default_null (JStr ''a.png''))),
         Emit ''send_file'' (JObj [(''room'', sessionId chatting_world)])]"
proof -
  let ?bad = "sendMessageViaSocket failing_upload_env (JStr ''photo'')
        (JStr ''data:image/png;base64,AAAA'') (JStr ''a.png'') chatting_world"
  let ?good = "sendMessageViaSocket accepting_upload_env (JStr ''photo'')
        (JStr ''data:image/png;base64,AAAA'') (JStr ''a.png'') chatting_world"
  have failed: "upload_failed (upload_result failing_upload_env chatting_world (JStr ''photo'')
        (JStr ''data:image/png;base64,AAAA'') (JStr ''a.png''))"
    by (simp add: upload_failed_def upload_result_def failing_upload_env_def)
  have conn: "\<not> not_connected chatting_world"
    by (simp add: not_connected_def chatting_world_def initial_world_def)
  have accepted: "upload_result accepting_upload_env chatting_world (JStr ''photo'')
        (JStr ''data:image/png;base64,AAAA'') (JStr ''a.png'')
      = Resolved \<lparr>ok = True, status = 200, statusText = ''OK'',
                   json = Inr (JObj [(''status'', JBool True)])\<rparr>"
    by (simp add: upload_result_def accepting_upload_env_def)
  have announced: "\<exists>ev \<in> set (new_events chatting_world (snd ?good)). is_file_announcement ev"
    using send_upload_ok [OF conn _ accepted]
    by (simp add: default_null_def new_events_def)
  from announcement_after_upload [of failing_upload_env "JStr ''photo''"
      "JStr ''data:image/png;base64,AAAA''" "JStr ''a.png''" chatting_world "fst ?bad" "snd ?bad"]
    announcement_after_upload [of accepting_upload_env "JStr ''photo''"
      "JStr ''data:image/png;base64,AAAA''" "JStr ''a.png''" chatting_world "fst ?good" "snd ?good"]
    failed announced
  show ?thesis by simp
qed


section \<open>Setting the profile\<close>

lemmas profile_defs =
  setProfile_def setProfile_try_def check_ok_def response_json_def fetch_def get_def

lemma setProfile_True:
  "setProfile e sId userEmail userName w = (Inr True, w1) \<Longrightarrow>
   \<exists>parts. js_split userName = Inr parts
     \<and> email w1 = userEmail \<and> firstName w1 = first_part parts \<and> lastName w1 = rest_parts parts
     \<and> sessionProfileExists w1 = True \<and> sessionStatus w1 = StActive
     \<and> isLoadingSession w1 = False \<and> sessionError w1 = None
     \<and> messages w1 = messages w \<and> sessionId w1 = sessionId w
     \<and> chatThemeColor w1 = chatThemeColor w \<and> tempUserEmail w1 = tempUserEmail w
     \<and> tempUserName w1 = tempUserName w \<and> socketRef w1 = socketRef w
     \<and> storage w1 = storage w \<and> world.more w1 = world.more w"
  unfolding profile_defs
  by (auto simp add: act_defs Let_def split: sum.splits fetch_result.splits prod.splits if_splits)

lemma setProfile_again:
  "setProfile e sId userEmail userName w = (r, w') \<Longrightarrow> email w = userEmail \<Longrightarrow>
   email w' = email w \<and> (r \<noteq> Inr True \<longrightarrow> firstName w' = firstName w \<and> lastName w' = lastName w
      \<and> sessionProfileExists w' = sessionProfileExists w)"
  unfolding profile_defs
  by (auto simp add: act_defs Let_def split: sum.splits fetch_result.splits prod.splits if_splits)

text \<open>
  Claim C8, as amended. After a successful \<open>setProfile\<close>, a second call with the same
  arguments leaves the email, the first name, the last name and the profile flag as they
  were, whatever its outcome. When the second call succeeds as well, the status is
  unchanged too, and so is every other state cell (only the trace has grown by the
  request). When it does not succeed it returns \<open>false\<close> and the status is \<open>error\<close>.
\<close>

theorem setProfile_idempotent:
  assumes first: "setProfile e sId userEmail userName w = (Inr True, w1)"
    and second: "setProfile e sId userEmail userName w1 = (r2, w2)"
  shows "email w2 = email w1 \<and> firstName w2 = firstName w1 \<and> lastName w2 = lastName w1
       \<and> sessionProfileExists w2 = sessionProfileExists w1
       \<and> (r2 = Inr True \<longrightarrow> sessionStatus w2 = sessionStatus w1 \<and> w2\<lparr>trace := trace w1\<rparr> = w1)
       \<and> (r2 \<noteq> Inr True \<longrightarrow> r2 = Inr False \<and> sessionStatus w2 = StError)"
proof (cases "r2 = Inr True")
  case True
  from setProfile_True [OF first] setProfile_True [OF second [unfolded True]]
  have "w2\<lparr>trace := trace w1\<rparr> = w1"
    by (intro world.equality) auto
  moreover from setProfile_True [OF first] setProfile_True [OF second [unfolded True]]
  have "email w2 = email w1 \<and> firstName w2 = firstName w1 \<and> lastName w2 = lastName w1
       \<and> sessionProfileExists w2 = sessionProfileExists w1 \<and> sessionStatus w2 = sessionStatus w1"
    by auto
  ultimately show ?thesis using True by simp
next
  case False
  from setProfile_True [OF first] have "email w1 = userEmail" by blast
  from setProfile_again [OF second this] setProfile_outcome [OF second] False
  show ?thesis by simp
qed

theorem setProfile_idempotent_witness:
  "fst (setProfile accepting_profile_env (JStr ''S1'') (JStr ''ann@example.com'') (JStr ''Ann Lee'')
          pending_world) = Inr True
   \<and> firstName (snd (setProfile accepting_profile_env (JStr ''S1'') (JStr ''ann@example.com'')
          (JStr ''Ann Lee'') pending_world)) = JStr ''Ann''
   \<and> fst (setProfile accepting_profile_env (JStr ''S1'') (JStr ''ann@example.com'') (JStr ''Ann Lee'')
          (snd (setProfile accepting_profile_env (JStr ''S1'') (JStr ''ann@example.com'')
             (JStr ''Ann Lee'') pending_world))) = Inr True
   \<and> sessionStatus (snd (setProfile accepting_profile_env (JStr ''S1'') (JStr ''ann@example.com'')
          (JStr ''Ann Lee'')
          (snd (setProfile accepting_profile_env (JStr ''S1'') (JStr ''ann@example.com'')
             (JStr ''Ann Lee'') pending_world)))) = StActive
   \<and> firstName (snd (setProfile accepting_profile_env (JStr ''S1'') (JStr ''ann@example.com'')
          (JStr ''Ann Lee'')
          (snd (setProfile accepting_profile_env (JStr ''S1'') (JStr ''ann@example.com'')
             (JStr ''Ann Lee'') pending_world)))) = JStr ''Ann''"
proof -
  let ?call = "setProfile accepting_profile_env (JStr ''S1'') (JStr ''ann@example.com'') (JStr ''Ann Lee'')"
  have one: "?call pending_world =
      (Inr True, pending_world\<lparr>email := JStr ''ann@example.com'', firstName := JStr ''Ann'',
         lastName := JStr ''Lee'', sessionProfileExists := True,
         trace := [Fetch setProfileUrl (JObj [(''Content-Type'', JStr ''application/json'')])
           (JObj [(''session_id'', JStr ''S1''), (''email'', JStr ''ann@example.com''),
                  (''name'', JStr ''Ann Lee'')])]\<rparr>)"
    by (simp add: profile_defs act_defs accepting_profile_env_def offline_env_def pending_world_def
        initial_world_def first_part_def rest_parts_def js_or_def)
  have two: "fst (?call (snd (?call pending_world))) = Inr True"
    by (simp add: one, simp add: profile_defs act_defs accepting_profile_env_def offline_env_def
        first_part_def rest_parts_def js_or_def)
  from setProfile_idempotent [of accepting_profile_env "JStr ''S1''" "JStr ''ann@example.com''"
      "JStr ''Ann Lee''" pending_world "snd (?call pending_world)"
      "fst (?call (snd (?call pending_world)))" "snd (?call (snd (?call pending_world)))"]
    one two
  show ?thesis by (simp add: pending_world_def initial_world_def)
qed

text \<open>
  C8 as written also promises the status after a second call whose request fails: with
  an environment that accepts the first profile request and rejects the next one, the
  first call leaves status \<open>active\<close> and the identical second call leaves \<open>error\<close>.
\<close>

theorem setProfile_second_failure_counterexample:
  "fst (setProfile flaky_profile_env (JStr ''S1'') (JStr ''ann@example.com'') (JStr ''Ann Lee'')
          pending_world) = Inr True
   \<and> sessionStatus (snd (setProfile flaky_profile_env (JStr ''S1'') (JStr ''ann@example.com'')
          (JStr ''Ann Lee'') pending_world)) = StActive
   \<and> sessionStatus (snd (setProfile flaky_profile_env (JStr ''S1'') (JStr ''ann@example.com'')
          (JStr ''Ann Lee'')
          (snd (setProfile flaky_profile_env (JStr ''S1'') (JStr ''ann@example.com'')
             (JStr ''Ann Lee'') pending_world)))) = StError"
proof -
  let ?call = "setProfile flaky_profile_env (JStr ''S1'') (JStr ''ann@example.com'') (JStr ''Ann Lee'')"
  have one: "?call pending_world =
      (Inr True, pending_world\<lparr>email := JStr ''ann@example.com'', firstName := JStr ''Ann'',
         lastName := JStr ''Lee'', sessionProfileExists := True,
         trace := [Fetch setProfileUrl (JObj [(''Content-Type'', JStr ''application/json'')])
           (JObj [(''session_id'', JStr ''S1''), (''email'', JStr ''ann@example.com''),
                  (''name'', JStr ''Ann Lee'')])]\<rparr>)"
    by (simp add: profile_defs act_defs flaky_profile_env_def offline_env_def pending_world_def
        initial_world_def first_part_def rest_parts_def js_or_def)
  have two: "sessionStatus (snd (?call (snd (?call pending_world)))) = StError"
    by (simp add: one, simp add: profile_defs act_defs flaky_profile_env_def offline_env_def)
  show ?thesis using two by (simp add: one, simp add: pending_world_def initial_world_def)
qed

section \<open>Startup with a stale stored id\<close>

text \<open>
  One run of \<open>setupCuoral\<close> whose load of the stored id fails and whose call of
  \<open>initiateSession\<close> succeeds: the run returns normally and the store holds the session id
  of the create response. If the run does not go on to submit the initial profile, it ends
  in the world \<open>initiateSession\<close> left, with status \<open>active\<close>; if it does, it ends \<open>active\<close>
  when the submission succeeds and \<open>error\<close> when it fails.
\<close>

lemma fallback_run:
  assumes stored: "storage w0 = Some stored" "truthy stored"
    and fails: "getSession e stored (setup_start w0) = (Inr False, wa)"
    and created: "initiateSession e (initialEmail e) (initialFirstName e) (initialLastName e) wa
                  = (Inr True, wb)"
  shows "fst (setupCuoral e w0) = Inr ()
       \<and> truthy (opt_get (body_of (initiate_response e wa (initialEmail e) (initialFirstName e)
                     (initialLastName e))) ''session_id'')
       \<and> storage (snd (setupCuoral e w0))
           = Some (opt_get (body_of (initiate_response e wa (initialEmail e) (initialFirstName e)
                     (initialLastName e))) ''session_id'')
       \<and> (\<not> profile_follow_up e w0 \<longrightarrow>
            snd (setupCuoral e w0) = wb\<lparr>isLoadingSession := False\<rparr>
            \<and> sessionStatus (snd (setupCuoral e w0)) = StActive)
       \<and> (profile_follow_up e w0 \<longrightarrow>
            fst (setProfile e (sessionId w0) (initialEmail e) (JStr (combinedName e)) wb) = Inr True
              \<and> sessionStatus (snd (setupCuoral e w0)) = StActive
            \<or> fst (setProfile e (sessionId w0) (initialEmail e) (JStr (combinedName e)) wb) = Inr False
              \<and> sessionStatus (snd (setupCuoral e w0)) = StError)"
proof -
  let ?prof = "setProfile e (sessionId w0) (initialEmail e) (JStr (combinedName e)) wb"
  note run = setupCuoral_fallback [OF stored fails created]
  from initiateSession_True [OF created] obtain resp data where
    resp: "initiate_response e wa (initialEmail e) (initialFirstName e) (initialLastName e)
           = Resolved resp" "json resp = Inr data"
    and sid: "truthy (opt_get data ''session_id'')"
    and wb: "storage wb = Some (opt_get data ''session_id'')" "sessionStatus wb = StActive"
    by blast
  have body: "body_of (initiate_response e wa (initialEmail e) (initialFirstName e)
                (initialLastName e)) = data"
    by (simp add: body_of_def resp)
  have store: "storage (snd (setupCuoral e w0)) = Some (opt_get data ''session_id'')"
    by (simp add: run wb setProfile_storage)
  have plain: "snd (setupCuoral e w0) = wb\<lparr>isLoadingSession := False\<rparr>
               \<and> sessionStatus (snd (setupCuoral e w0)) = StActive"
    if "\<not> profile_follow_up e w0"
    using that by (simp add: run wb)
  have follow: "fst ?prof = Inr True \<and> sessionStatus (snd (setupCuoral e w0)) = StActive
                \<or> fst ?prof = Inr False \<and> sessionStatus (snd (setupCuoral e w0)) = StError"
    if "profile_follow_up e w0"
    using that setProfile_outcome [of e "sessionId w0" "initialEmail e" "JStr (combinedName e)" wb
        "fst ?prof" "snd ?prof"]
    by (simp add: run)
  show ?thesis using run sid store plain follow by (simp add: body)
qed

text \<open>
  A first mount without initial props, on a backend that knows no session but the one it
  creates: the run ends \<open>active\<close> with the new id stored.
\<close>

lemma stale_first_load:
  "getSession stale_env (JStr ''S0'') (setup_start (initial_world stale_env (Some (JStr ''S0''))))
   = (Inr False,
      (setup_start (initial_world stale_env (Some (JStr ''S0''))))
        \<lparr>isLoadingSession := False,
         sessionError := Some (''HTTP error! status: '' @ decimal 404 @ '', message: ''
                               @ ''Session not found''),
         sessionStatus := StError,
         trace := [RegisterPush, StorageGet,
                   Fetch getSessionUrl (json_headers stale_env) (JObj [(''session_id'', JStr ''S0'')])]\<rparr>)"
  by (simp add: eval_defs stale_env_def stale_net_def not_found_def offline_env_def
      setup_start_def initial_world_def message_or_def)


lemma stale_created:
  "fst (initiateSession stale_env JUndefined JUndefined JUndefined
     (snd (getSession stale_env (JStr ''S0'')
             (setup_start (initial_world stale_env (Some (JStr ''S0''))))))) = Inr True"
  by (simp add: stale_first_load)
     (simp add: eval_defs stale_env_def stale_net_def not_found_def offline_env_def
      setup_start_def initial_world_def message_or_def)

lemma first_mount_run:
  "storage (initial_world stale_env (Some (JStr ''S0''))) = Some (JStr ''S0'')
   \<and> truthy (JStr ''S0'')
   \<and> fst (getSession stale_env (JStr ''S0'')
             (setup_start (initial_world stale_env (Some (JStr ''S0''))))) = Inr False
   \<and> \<not> profile_follow_up stale_env (initial_world stale_env (Some (JStr ''S0'')))
   \<and> fst (setupCuoral stale_env (initial_world stale_env (Some (JStr ''S0'')))) = Inr ()
   \<and> storage (snd (setupCuoral stale_env (initial_world stale_env (Some (JStr ''S0'')))))
       = Some (JStr ''S2'')
   \<and> sessionStatus (snd (setupCuoral stale_env (initial_world stale_env (Some (JStr ''S0'')))))
       = StActive"
proof -
  let ?w0 = "initial_world stale_env (Some (JStr ''S0''))"
  let ?wa = "snd (getSession stale_env (JStr ''S0'') (setup_start ?w0))"
  let ?wb = "snd (initiateSession stale_env JUndefined JUndefined JUndefined ?wa)"
  have props: "initialEmail stale_env = JUndefined" "initialFirstName stale_env = JUndefined"
    "initialLastName stale_env = JUndefined"
    by (simp_all add: stale_env_def offline_env_def)
  have stored: "storage ?w0 = Some (JStr ''S0'')" "truthy (JStr ''S0'')"
    by (simp_all add: initial_world_def)
  have fails: "getSession stale_env (JStr ''S0'') (setup_start ?w0) = (Inr False, ?wa)"
    by (simp add: stale_first_load)
  have created: "initiateSession stale_env (initialEmail stale_env) (initialFirstName stale_env)
                   (initialLastName stale_env) ?wa = (Inr True, ?wb)"
    using stale_created by (simp add: props prod_eq_iff)
  have no_follow: "\<not> profile_follow_up stale_env ?w0"
    by (simp add: profile_follow_up_def initial_world_def)
  have new_id: "opt_get (body_of (initiate_response stale_env ?wa (initialEmail stale_env)
                  (initialFirstName stale_env) (initialLastName stale_env))) ''session_id''
                = JStr ''S2''"
    by (simp add: stale_first_load)
       (simp add: body_of_def initiate_response_def stale_env_def stale_net_def offline_env_def
        initiateSessionUrl_def)
  have failed: "fst (getSession stale_env (JStr ''S0'') (setup_start ?w0)) = Inr False"
    by (simp add: stale_first_load)
  from fallback_run [OF stored fails created] no_follow
  have "fst (setupCuoral stale_env ?w0) = Inr ()"
    and "storage (snd (setupCuoral stale_env ?w0))
         = Some (opt_get (body_of (initiate_response stale_env ?wa (initialEmail stale_env)
                  (initialFirstName stale_env) (initialLastName stale_env))) ''session_id'')"
    and "sessionStatus (snd (setupCuoral stale_env ?w0)) = StActive"
    by blast+
  then show ?thesis using stored failed no_follow new_id by simp
qed





section \<open>Order of the log\<close>

lemma merge_incoming_log:
  "messages (merge_incoming new title body w) = messages w
   \<or> messages (merge_incoming new title body w) = js_sort (messages w @ [new])"
  by (simp add: merge_incoming_def Let_def)

lemma on_send_message_log:
  "messages (snd (on_send_message e sId message w)) = messages w
   \<or> (\<exists>new. messages (snd (on_send_message e sId message w)) = js_sort (messages w @ [new]))"
proof (cases "opt_toLowerCase (opt_get (opt_get message ''messageData'') ''message_type'')")
  case (Inl ex)
  then show ?thesis by (simp add: on_send_message_def act_defs Let_def)
next
  case (Inr lowered)
  then show ?thesis
    using merge_incoming_log [of _ _ _ w]
    by (simp add: on_send_message_def act_defs Let_def) blast
qed

lemma on_send_file_log:
  "messages (snd (on_send_file e sId message w)) = messages w
   \<or> (\<exists>new. messages (snd (on_send_file e sId message w)) = js_sort (messages w @ [new]))"
proof (cases "opt_toLowerCase (opt_get (opt_get message ''messageData'') ''message_type'')")
  case (Inl ex)
  then show ?thesis by (simp add: on_send_file_def act_defs Let_def)
next
  case (Inr lowered)
  then show ?thesis
    using merge_incoming_log [of _ _ _ w]
    by (simp add: on_send_file_def act_defs Let_def) blast
qed

lemma deliver_log:
  assumes "ev = EvSendMessage message \<or> ev = EvSendFile message"
  shows "messages (snd (deliver e ev w)) = messages w
   \<or> (\<exists>new. messages (snd (deliver e ev w)) = js_sort (messages w @ [new]))"
proof (cases "socketRef w")
  case None
  then show ?thesis by (simp add: deliver_def)
next
  case (Some s)
  with assms on_send_message_log [of e "bound s" message w] on_send_file_log [of e "bound s" message w]
  show ?thesis by (auto simp add: deliver_def)
qed

lemma set_js_sort: "set (js_sort xs) = set xs"
  using mset_js_sort [of xs] by (metis set_mset_mset)

lemma history_load:
  "getSession history_env (JStr ''S1'') (initial_world history_env (Some (JStr ''S1''))) =
     (Inr True,
      (initial_world history_env (Some (JStr ''S1'')))
        \<lparr>isLoadingSession := False, sessionStatus := StClosed, sessionId := JStr ''S1'',
         messages :=
           [\<lparr>msg_id = JStr ''2024-05-01T10:00:00Z'', conversationId = JUndefined,
             msg_text = JStr ''first'', sender = JStr ''user'', timestamp = Some 1714557600000,
             fileUrl = JNull, fileName = JNull\<rparr>,
            \<lparr>msg_id = JStr ''2024-05-01T10:00:05Z'', conversationId = JUndefined,
             msg_text = JStr ''second'', sender = JStr ''bot'', timestamp = Some 1714557605000,
             fileUrl = JNull, fileName = JNull\<rparr>],
         trace := [Fetch getSessionUrl (json_headers history_env)
                     (JObj [(''session_id'', JStr ''S1'')])]\<rparr>)"
  by (simp add: eval_defs history_env_def offline_env_def initial_world_def load_message_def
      sorts_after_def compare_time_def)

lemma chat_delivery:
  "deliver offline_env
     (EvSendMessage (envelope ''S1'' ''REPLY'' ''external'' ''2024-05-01T10:00:05Z'' ''hi''))
     chatting_world =
   (Inr (),
    chatting_world
      \<lparr>messages :=
         [first_reply,
          \<lparr>msg_id = JStr ''2024-05-01T10:00:05Z'', conversationId = JStr ''S1'',
            msg_text = JStr ''hi'', sender = JStr ''bot'', timestamp = Some 1714557605000,
            fileUrl = JNull, fileName = JNull\<rparr>],
       trace := [PlaySound, Notify ''New Message from Cuoral'' (JStr ''hi'')]\<rparr>)"
  by (simp add: deliver_def on_send_message_def newMessageFromSocket_def merge_incoming_def
      is_duplicate_def last_message_def js_sort_def sorts_after_def compare_time_def
      chatting_world_def initial_world_def offline_env_def envelope_def first_reply_def
      act_defs Let_def js_or_def lower_char_def)

lemma empty_history_load:
  "getSession empty_history_env (JStr ''S1'') chatting_world =
     (Inr True,
      chatting_world
        \<lparr>messages := [],
         socketRef := Some \<lparr>bound = JStr ''S1'', connected = False\<rparr>,
         trace := [Fetch getSessionUrl (json_headers empty_history_env)
                     (JObj [(''session_id'', JStr ''S1'')]),
                   SocketClose, SocketOpen (JStr ''S1'')]\<rparr>)"
  by (simp add: eval_defs empty_history_env_def offline_env_def chatting_world_def
      initial_world_def)

text \<open>
  Claim C3, as amended. After a successful \<open>getSession\<close> the log holds exactly the loaded
  history, and after a \<open>send_message\<close> or \<open>send_file\<close> event it is either unchanged or
  holds the previous log and one new message; in both cases, when every timestamp is a
  valid date, the log is sorted ascending by timestamp and messages with equal timestamps
  keep the order they had (in the history, or in the previous log followed by the new
  message). After \<open>addMessage\<close> the log holds the previous log and the added message.
  Neither a realtime insertion nor \<open>addMessage\<close> removes a message.
\<close>

theorem log_order:
  "(getSession e sId w = (Inr True, w1) \<longrightarrow>
      mset (messages w1) = mset (loaded_history e w sId)
      \<and> ((\<forall>x \<in> set (messages w1). timestamp x \<noteq> None) \<longrightarrow>
           sorted (map time_of (messages w1))
           \<and> (\<forall>k. filter (\<lambda>x. time_of x = k) (messages w1)
                   = filter (\<lambda>x. time_of x = k) (loaded_history e w sId))))
   \<and> (ev = EvSendMessage message \<or> ev = EvSendFile message \<longrightarrow>
        messages (snd (deliver e ev w)) = messages w
        \<or> (\<exists>new. mset (messages (snd (deliver e ev w))) = add_mset new (mset (messages w))
              \<and> ((\<forall>x \<in> set (messages (snd (deliver e ev w))). timestamp x \<noteq> None) \<longrightarrow>
                   sorted (map time_of (messages (snd (deliver e ev w))))
                   \<and> (\<forall>k. filter (\<lambda>x. time_of x = k) (messages (snd (deliver e ev w)))
                           = filter (\<lambda>x. time_of x = k) (messages w @ [new])))))
   \<and> mset (messages (snd (addMessageToState a w))) = add_mset a (mset (messages w))"
proof -
  have sorted_facts: "mset (js_sort xs) = mset xs
      \<and> ((\<forall>x \<in> set (js_sort xs). timestamp x \<noteq> None) \<longrightarrow>
           sorted (map time_of (js_sort xs))
           \<and> (\<forall>k. filter (\<lambda>x. time_of x = k) (js_sort xs) = filter (\<lambda>x. time_of x = k) xs))" for xs
    using js_sort_sorted [of xs] by (simp add: mset_js_sort set_js_sort)
  have hydrate: "messages w1 = js_sort (loaded_history e w sId)"
    if "getSession e sId w = (Inr True, w1)"
    using getSession_True [OF that] by (auto simp add: loaded_history_def body_of_def)
  have realtime: "messages (snd (deliver e ev w)) = messages w
        \<or> (\<exists>new. mset (messages (snd (deliver e ev w))) = add_mset new (mset (messages w))
              \<and> ((\<forall>x \<in> set (messages (snd (deliver e ev w))). timestamp x \<noteq> None) \<longrightarrow>
                   sorted (map time_of (messages (snd (deliver e ev w))))
                   \<and> (\<forall>k. filter (\<lambda>x. time_of x = k) (messages (snd (deliver e ev w)))
                           = filter (\<lambda>x. time_of x = k) (messages w @ [new]))))"
    if "ev = EvSendMessage message \<or> ev = EvSendFile message"
  proof -
    from deliver_log [OF that, of e w] consider
      "messages (snd (deliver e ev w)) = messages w"
      | new where "messages (snd (deliver e ev w)) = js_sort (messages w @ [new])"
      by blast
    then show ?thesis
    proof cases
      case 1
      then show ?thesis by simp
    next
      case 2
      have "mset (messages (snd (deliver e ev w))) = add_mset new (mset (messages w))"
        by (simp add: 2 mset_js_sort)
      with sorted_facts [of "messages w @ [new]"] show ?thesis
        unfolding 2 by blast
    qed
  qed
  have append: "mset (messages (snd (addMessageToState a w))) = add_mset a (mset (messages w))"
    by (simp add: addMessageToState_def modify_def)
  show ?thesis
    using hydrate sorted_facts [of "loaded_history e w sId"] realtime append by auto
qed

theorem log_order_witness:
  "fst (getSession history_env (JStr ''S1'') (initial_world history_env (Some (JStr ''S1''))))
     = Inr True
   \<and> map timestamp (messages (snd (getSession history_env (JStr ''S1'')
                (initial_world history_env (Some (JStr ''S1''))))))
       = [Some 1714557600000, Some 1714557605000]
   \<and> map msg_text (loaded_history history_env (initial_world history_env (Some (JStr ''S1'')))
                     (JStr ''S1'')) = [JStr ''second'', JStr ''first'']
   \<and> map msg_text (messages (snd (getSession history_env (JStr ''S1'')
                (initial_world history_env (Some (JStr ''S1'')))))) = [JStr ''first'', JStr ''second'']
   \<and> sorted (map time_of (messages (snd (getSession history_env (JStr ''S1'')
                (initial_world history_env (Some (JStr ''S1'')))))))
   \<and> messages (snd (deliver offline_env
         (EvSendMessage (envelope ''S1'' ''REPLY'' ''external'' ''2024-05-01T10:00:05Z'' ''hi''))
         chatting_world)) \<noteq> messages chatting_world
   \<and> sorted (map time_of (messages (snd (deliver offline_env
         (EvSendMessage (envelope ''S1'' ''REPLY'' ''external'' ''2024-05-01T10:00:05Z'' ''hi''))
         chatting_world))))"
proof -
  let ?w = "initial_world history_env (Some (JStr ''S1''))"
  let ?w1 = "snd (getSession history_env (JStr ''S1'') ?w)"
  let ?ev = "EvSendMessage (envelope ''S1'' ''REPLY'' ''external'' ''2024-05-01T10:00:05Z'' ''hi'')"
  let ?w2 = "snd (deliver offline_env ?ev chatting_world)"
  have load: "getSession history_env (JStr ''S1'') ?w = (Inr True, ?w1)"
    by (simp add: history_load)
  have valid: "\<forall>x \<in> set (messages ?w1). timestamp x \<noteq> None"
    by (simp add: history_load)
  have texts: "map msg_text (messages ?w1) = [JStr ''first'', JStr ''second'']"
    by (simp add: history_load)
  have history: "map msg_text (loaded_history history_env ?w (JStr ''S1''))
                 = [JStr ''second'', JStr ''first'']"
    by (simp add: loaded_history_def body_of_def session_response_def history_env_def
        offline_env_def load_message_def getSessionUrl_def)
  have changed: "messages ?w2 \<noteq> messages chatting_world"
    by (simp add: chat_delivery) (simp add: chatting_world_def)
  have valid2: "\<forall>x \<in> set (messages ?w2). timestamp x \<noteq> None"
    by (simp add: chat_delivery first_reply_def)
  from log_order [of history_env "JStr ''S1''" ?w ?w1] load valid
  have s1: "sorted (map time_of (messages ?w1))" by blast
  from log_order [where e = offline_env and w = chatting_world and ev = ?ev
      and message = "envelope ''S1'' ''REPLY'' ''external'' ''2024-05-01T10:00:05Z'' ''hi''"]
    changed valid2
  have s2: "sorted (map time_of (messages ?w2))" by blast
  have ok: "fst (getSession history_env (JStr ''S1'') ?w) = Inr True"
    by (simp add: history_load)
  have times: "map timestamp (messages ?w1) = [Some 1714557600000, Some 1714557605000]"
    by (simp add: history_load)
  show ?thesis using ok times texts history changed s1 s2 by simp
qed

text \<open>
  C3 as written also covers \<open>addMessage\<close> and allows no removal but a session reset. A
  message dated before the last entry, added with \<open>addMessage\<close>, leaves the log unsorted;
  and a \<open>getSession\<close> that loads an empty history replaces a log of one message by the
  empty log.
\<close>

theorem log_order_counterexample:
  "sorted (map time_of (messages chatting_world))
   \<and> \<not> sorted (map time_of (messages (snd (addMessageToState early_message chatting_world))))
   \<and> first_reply \<in> set (messages chatting_world)
   \<and> fst (getSession empty_history_env (JStr ''S1'') chatting_world) = Inr True
   \<and> messages (snd (getSession empty_history_env (JStr ''S1'') chatting_world)) = []"
  by (simp add: empty_history_load)
     (simp add: addMessageToState_def modify_def chatting_world_def initial_world_def
      time_of_def first_reply_def early_message_def)

section \<open>A session whose profile is incomplete\<close>

lemma pending_load:
  "getSession empty_history_env (JStr ''S1'') (initial_world empty_history_env (Some (JStr ''S1''))) =
     (Inr True,
      (initial_world empty_history_env (Some (JStr ''S1'')))
        \<lparr>isLoadingSession := False, sessionStatus := StActive, sessionId := JStr ''S1'',
         socketRef := Some \<lparr>bound = JStr ''S1'', connected = False\<rparr>,
         trace := [Fetch getSessionUrl (json_headers empty_history_env)
                     (JObj [(''session_id'', JStr ''S1'')]),
                   SocketOpen (JStr ''S1'')]\<rparr>)"
  by (simp add: eval_defs empty_history_env_def offline_env_def initial_world_def)

lemma fresh_install_run:
  "setupCuoral fresh_env (initial_world fresh_env None) =
     (Inr (),
      (initial_world fresh_env None)
        \<lparr>isLoadingSession := False, sessionStatus := StActive, sessionId := JStr ''S1'',
         storage := Some (JStr ''S1''),
         socketRef := Some \<lparr>bound = JStr ''S1'', connected = False\<rparr>,
         trace := [RegisterPush, StorageGet,
                   Fetch initiateSessionUrl (json_headers fresh_env)
                     (JObj [(''public_key'', JStr ''pk_1''), (''email'', JUndefined),
                            (''first_name'', JUndefined), (''last_name'', JUndefined)]),
                   StorageSet (JStr ''S1''),
                   Fetch getSessionUrl (json_headers fresh_env) (JObj [(''session_id'', JStr ''S1'')]),
                   SocketOpen (JStr ''S1'')]\<rparr>)"
  by (simp add: eval_defs fresh_env_def fresh_net_def offline_env_def initial_world_def)

text \<open>
  Claim C4, as amended. When \<open>getSession\<close> succeeds on a response whose status is not
  \<open>closed\<close> and whose email or name is absent, the status becomes \<open>active\<close> with the profile
  flag unset (the state the specification calls ProfilePending), and the socket is opened
  for the session id of the response at once. On a fresh install (nothing stored, session
  \<open>S1\<close> created, then loaded as active with a null profile and an empty history) the run
  ends with status \<open>active\<close>, the profile flag unset, an empty log, \<open>S1\<close> stored, and a
  socket opened for \<open>S1\<close>.
\<close>

theorem active_pending_binds_socket:
  assumes "getSession e sId w = (Inr True, w')"
    and "\<not> strict_eq (opt_get (body_of (session_response e w sId)) ''status'') (JStr ''closed'')"
    and "\<not> (truthy (opt_get (body_of (session_response e w sId)) ''email'')
            \<and> truthy (opt_get (body_of (session_response e w sId)) ''name''))"
  shows "sessionStatus w' = StActive \<and> \<not> sessionProfileExists w'
       \<and> socketRef w' = Some \<lparr>bound = opt_get (body_of (session_response e w sId)) ''session_id'',
                               connected = False\<rparr>
       \<and> SocketOpen (opt_get (body_of (session_response e w sId)) ''session_id'')
            \<in> set (new_events w w')
       \<and> setupCuoral fresh_env (initial_world fresh_env None) =
           (Inr (),
            (initial_world fresh_env None)
              \<lparr>isLoadingSession := False, sessionStatus := StActive, sessionId := JStr ''S1'',
               storage := Some (JStr ''S1''),
               socketRef := Some \<lparr>bound = JStr ''S1'', connected = False\<rparr>,
               trace := [RegisterPush, StorageGet,
                         Fetch initiateSessionUrl (json_headers fresh_env)
                           (JObj [(''public_key'', JStr ''pk_1''), (''email'', JUndefined),
                                  (''first_name'', JUndefined), (''last_name'', JUndefined)]),
                         StorageSet (JStr ''S1''),
                         Fetch getSessionUrl (json_headers fresh_env)
                           (JObj [(''session_id'', JStr ''S1'')]),
                         SocketOpen (JStr ''S1'')]\<rparr>)"
proof -
  from getSession_True [OF assms(1)] obtain resp data where
    resp: "session_response e w sId = Resolved resp" "json resp = Inr data"
    and st: "sessionStatus w' = (if strict_eq (opt_get data ''status'') (JStr ''closed'')
                                 then StClosed else StActive)"
    and pr: "sessionProfileExists w' = (truthy (opt_get data ''email'') \<and> truthy (opt_get data ''name''))"
    and so: "socketRef w' = (if strict_eq (opt_get data ''status'') (JStr ''closed'') then socketRef w
                            else Some \<lparr>bound = opt_get data ''session_id'', connected = False\<rparr>)"
    and tr: "trace w' = trace w @ [Fetch getSessionUrl (json_headers e) (JObj [(''session_id'', sId)])]
              @ (if strict_eq (opt_get data ''status'') (JStr ''closed'') then []
                 else (case socketRef w of None \<Rightarrow> [] | Some old \<Rightarrow> [SocketClose])
                      @ [SocketOpen (opt_get data ''session_id'')])"
    by blast
  have body: "body_of (session_response e w sId) = data"
    by (simp add: body_of_def resp)
  show ?thesis using assms(2,3) st pr so tr
    unfolding body by (simp add: new_events_def fresh_install_run)
qed

theorem active_pending_binds_socket_witness:
  "fst (getSession empty_history_env (JStr ''S1'')
          (initial_world empty_history_env (Some (JStr ''S1'')))) = Inr True
   \<and> opt_get (body_of (session_response empty_history_env
          (initial_world empty_history_env (Some (JStr ''S1''))) (JStr ''S1''))) ''status''
      = JStr ''active''
   \<and> \<not> truthy (opt_get (body_of (session_response empty_history_env
          (initial_world empty_history_env (Some (JStr ''S1''))) (JStr ''S1''))) ''email'')
   \<and> sessionStatus (snd (getSession empty_history_env (JStr ''S1'')
          (initial_world empty_history_env (Some (JStr ''S1''))))) = StActive
   \<and> \<not> sessionProfileExists (snd (getSession empty_history_env (JStr ''S1'')
          (initial_world empty_history_env (Some (JStr ''S1'')))))
   \<and> socketRef (snd (getSession empty_history_env (JStr ''S1'')
          (initial_world empty_history_env (Some (JStr ''S1'')))))
      = Some \<lparr>bound = JStr ''S1'', connected = False\<rparr>"
proof -
  let ?w = "initial_world empty_history_env (Some (JStr ''S1''))"
  let ?w1 = "snd (getSession empty_history_env (JStr ''S1'') ?w)"
  have body: "body_of (session_response empty_history_env ?w (JStr ''S1''))
              = JObj [(''session_id'', JStr ''S1''), (''status'', JStr ''active''),
                      (''messages'', JArr [])]"
    by (simp add: body_of_def session_response_def empty_history_env_def offline_env_def)
  have load: "getSession empty_history_env (JStr ''S1'') ?w = (Inr True, ?w1)"
    by (simp add: pending_load)
  have active: "\<not> strict_eq (opt_get (body_of (session_response empty_history_env ?w (JStr ''S1'')))
                   ''status'') (JStr ''closed'')"
    by (simp add: body)
  have incomplete: "\<not> (truthy (opt_get (body_of (session_response empty_history_env ?w (JStr ''S1'')))
                           ''email'')
                       \<and> truthy (opt_get (body_of (session_response empty_history_env ?w (JStr ''S1'')))
                           ''name''))"
    by (simp add: body)
  from active_pending_binds_socket [OF load active incomplete]
  have "sessionStatus ?w1 = StActive" and "\<not> sessionProfileExists ?w1"
    and "socketRef ?w1 = Some \<lparr>bound = opt_get (body_of (session_response empty_history_env ?w
           (JStr ''S1''))) ''session_id'', connected = False\<rparr>"
    by blast+
  moreover have "fst (getSession empty_history_env (JStr ''S1'') ?w) = Inr True"
    by (simp add: pending_load)
  ultimately show ?thesis by (simp add: body)
qed

text \<open>
  C4 as written ends the fresh install with no realtime connection. The run leaves a
  socket bound to \<open>S1\<close>, opened right after the load.
\<close>

theorem fresh_install_counterexample:
  "sessionStatus (snd (setupCuoral fresh_env (initial_world fresh_env None))) = StActive
   \<and> \<not> sessionProfileExists (snd (setupCuoral fresh_env (initial_world fresh_env None)))
   \<and> messages (snd (setupCuoral fresh_env (initial_world fresh_env None))) = []
   \<and> socketRef (snd (setupCuoral fresh_env (initial_world fresh_env None)))
      = Some \<lparr>bound = JStr ''S1'', connected = False\<rparr>
   \<and> SocketOpen (JStr ''S1'') \<in> set (trace (snd (setupCuoral fresh_env (initial_world fresh_env None))))"
  by (simp add: fresh_install_run) (simp add: initial_world_def)

end
